theory Spec2Isabelle
  imports Main "HOL-Library.AList"
begin

text \<open>
  A verification development for the go-router package: route groups with inherited
  middleware, the interception of the multiplexer's 404, 405 and 500 responses, and the
  OpenAPI document built from the declarations given at registration. The repository holds
  the router in two revisions. The definitions follow the newer one (status handlers in
  the \<^verbatim>\<open>handleStatus\<close> map registered with \<^verbatim>\<open>HandleStatus\<close>, the interceptor with its
  \<^verbatim>\<open>interceptMap\<close>, the pattern map); \<^verbatim>\<open>router.go\<close> differs in having three fixed
  status handlers, the redirect status 301 instead of 307, no pattern map, and in
  \<^verbatim>\<open>handleDocOut\<close> the field translation that \<^verbatim>\<open>handleDocIn\<close> has in both.
\<close>

section \<open>Host primitives: headers and the underlying response writer\<close>

text \<open>
  The router sits on top of Go's \<^verbatim>\<open>net/http\<close>. The response writer handed to
  \<^verbatim>\<open>ServeHTTP\<close> is an interface value owned by the host; it is modelled as a recorder:
  a live header map, the log of the \<^verbatim>\<open>WriteHeader\<close> and \<^verbatim>\<open>Write\<close> calls that reached
  it, and the answer its \<^verbatim>\<open>Write\<close> gives (count and error, \<open>None\<close> for a nil error).
  A call of \<^verbatim>\<open>http.Redirect\<close> on the writer is logged with its target and code.
  Header keys are taken as already canonical.
\<close>

type_synonym bytes = string

type_synonym header = "string \<Rightarrow> string list option"

definition hGet :: "header \<Rightarrow> string \<Rightarrow> string" where
  "hGet h k = (case h k of None \<Rightarrow> [] | Some [] \<Rightarrow> [] | Some (v # _) \<Rightarrow> v)"

definition hSet :: "string \<Rightarrow> string \<Rightarrow> header \<Rightarrow> header" where
  "hSet k v h = h(k \<mapsto> [v])"

definition hDel :: "string \<Rightarrow> header \<Rightarrow> header" where
  "hDel k h = h(k := None)"

datatype wcall = WroteHeader int | Wrote bytes | Redirected string int

fun is_WroteHeader :: "wcall \<Rightarrow> bool" where
  "is_WroteHeader (WroteHeader _) = True"
| "is_WroteHeader (Wrote _) = False"
| "is_WroteHeader (Redirected _ _) = True"

record responseWriter =
  rw_header :: header
  rw_calls :: "wcall list"
  rw_reply :: "bytes \<Rightarrow> nat \<times> string option"

definition base_WriteHeader :: "int \<Rightarrow> responseWriter \<Rightarrow> responseWriter" where
  "base_WriteHeader sc w = w\<lparr>rw_calls := rw_calls w @ [WroteHeader sc]\<rparr>"

definition http_Redirect :: "string \<Rightarrow> int \<Rightarrow> responseWriter \<Rightarrow> responseWriter" where
  "http_Redirect url code w = w\<lparr>rw_calls := rw_calls w @ [Redirected url code]\<rparr>"

definition base_Write ::
  "bytes \<Rightarrow> responseWriter \<Rightarrow> (nat \<times> string option) \<times> responseWriter" where
  "base_Write d w = (rw_reply w d, w\<lparr>rw_calls := rw_calls w @ [Wrote d]\<rparr>)"

section \<open>The response writer decorators\<close>

definition HeaderFlagDoNotIntercept :: string where
  "HeaderFlagDoNotIntercept = ''do_not_intercept''"

text \<open>
  \<^verbatim>\<open>excludeHeaderWriter\<close> embeds the underlying writer and overrides only
  \<^verbatim>\<open>WriteHeader\<close>: it deletes the excluded headers, then forwards. \<^verbatim>\<open>Write\<close> and
  \<^verbatim>\<open>Header\<close> are the promoted methods of the embedded writer.
\<close>

record excludeHeaderWriter =
  ehw_ResponseWriter :: responseWriter
  excludedHeaders :: "string list"

definition ehw_Header :: "excludeHeaderWriter \<Rightarrow> header" where
  "ehw_Header w = rw_header (ehw_ResponseWriter w)"

definition ehw_WriteHeader :: "int \<Rightarrow> excludeHeaderWriter \<Rightarrow> excludeHeaderWriter" where
  "ehw_WriteHeader sc w =
     w\<lparr>ehw_ResponseWriter :=
         base_WriteHeader sc
           ((ehw_ResponseWriter w)
              \<lparr>rw_header := fold hDel (excludedHeaders w) (rw_header (ehw_ResponseWriter w))\<rparr>)\<rparr>"

definition ehw_Write ::
  "bytes \<Rightarrow> excludeHeaderWriter \<Rightarrow> (nat \<times> string option) \<times> excludeHeaderWriter" where
  "ehw_Write d w =
     (case base_Write d (ehw_ResponseWriter w) of
        (r, u) \<Rightarrow> (r, w\<lparr>ehw_ResponseWriter := u\<rparr>))"

definition ehw_setHeader :: "string \<Rightarrow> string \<Rightarrow> excludeHeaderWriter \<Rightarrow> excludeHeaderWriter" where
  "ehw_setHeader k v w =
     w\<lparr>ehw_ResponseWriter := (ehw_ResponseWriter w)\<lparr>rw_header := hSet k v (ehw_Header w)\<rparr>\<rparr>"

definition ehw_delHeader :: "string \<Rightarrow> excludeHeaderWriter \<Rightarrow> excludeHeaderWriter" where
  "ehw_delHeader k w =
     w\<lparr>ehw_ResponseWriter := (ehw_ResponseWriter w)\<lparr>rw_header := hDel k (ehw_Header w)\<rparr>\<rparr>"

text \<open>
  \<^verbatim>\<open>routingStatusInterceptWriter\<close> (the \<^verbatim>\<open>interceptMap\<close> version). A predicate of the
  map is a closure that reads the live header of the underlying writer when it is called,
  so it is a function of that header.
\<close>

record routingStatusInterceptWriter =
  rsiw_ResponseWriter :: excludeHeaderWriter
  interceptMap :: "(int \<times> (header \<Rightarrow> bool)) list"
  statusCode :: int
  intercepted :: bool

text \<open>
  The \<^verbatim>\<open>for code, fn := range w.interceptMap\<close> loop of \<^verbatim>\<open>WriteHeader\<close>: it returns
  with \<^verbatim>\<open>intercepted = true\<close> at the first entry whose code is the status and whose
  predicate holds. (The loop's own \<^verbatim>\<open>if w.intercepted\<close> test is never true: the flag is
  false on entry and the only assignment returns.)
\<close>

fun intercept_loop :: "(int \<times> (header \<Rightarrow> bool)) list \<Rightarrow> int \<Rightarrow> header \<Rightarrow> bool" where
  "intercept_loop [] sc h = False"
| "intercept_loop ((code, fn) # rest) sc h =
     (if code = sc \<and> fn h then True else intercept_loop rest sc h)"

definition rsiw_WriteHeader ::
  "int \<Rightarrow> routingStatusInterceptWriter \<Rightarrow> routingStatusInterceptWriter" where
  "rsiw_WriteHeader sc w =
     (if intercepted w then w
      else if intercept_loop (interceptMap w) sc (ehw_Header (rsiw_ResponseWriter w))
        then w\<lparr>statusCode := sc, intercepted := True\<rparr>
        else w\<lparr>statusCode := sc,
               rsiw_ResponseWriter := ehw_WriteHeader sc (rsiw_ResponseWriter w)\<rparr>)"

definition rsiw_Write ::
  "bytes \<Rightarrow> routingStatusInterceptWriter \<Rightarrow>
     (nat \<times> string option) \<times> routingStatusInterceptWriter" where
  "rsiw_Write d w =
     (if intercepted w then ((0, None), w)
      else (case ehw_Write d (rsiw_ResponseWriter w) of
              (r, u) \<Rightarrow> (r, w\<lparr>rsiw_ResponseWriter := u\<rparr>)))"

text \<open>
  The three states of the specification, read off the writer: intercepted when the flag
  is set; otherwise forwarded once a \<^verbatim>\<open>WriteHeader\<close> call has reached the inner writer;
  otherwise idle.
\<close>

datatype wstate = Idle | Forwarded | Intercepted

definition wstate_of :: "routingStatusInterceptWriter \<Rightarrow> wstate" where
  "wstate_of w =
     (if intercepted w then Intercepted
      else if list_ex is_WroteHeader (rw_calls (ehw_ResponseWriter (rsiw_ResponseWriter w)))
        then Forwarded else Idle)"

text \<open>A recorder that accepts every write, and a fresh interceptor around it.\<close>

definition recorder :: responseWriter where
  "recorder = \<lparr>rw_header = Map.empty, rw_calls = [], rw_reply = (\<lambda>d. (length d, None))\<rparr>"

definition new_interceptor ::
  "responseWriter \<Rightarrow> (int \<times> (header \<Rightarrow> bool)) list \<Rightarrow> routingStatusInterceptWriter" where
  "new_interceptor w m =
     \<lparr>rsiw_ResponseWriter =
        \<lparr>ehw_ResponseWriter = w, excludedHeaders = [HeaderFlagDoNotIntercept]\<rparr>,
      interceptMap = m, statusCode = 0, intercepted = False\<rparr>"

definition flag_absent :: "header \<Rightarrow> bool" where
  "flag_absent h = (hGet h HeaderFlagDoNotIntercept = [])"

section \<open>The intercept writer: writes\<close>

text \<open>
  C7, as the code has it. Once intercepted, \<^verbatim>\<open>Write\<close> leaves the writer (and with it the
  inner writer) untouched and returns count 0 with a nil error; otherwise it appends the
  bytes to the calls of the inner writer, touches nothing else and returns the inner
  writer's own answer.
\<close>

theorem rsiw_Write_discards_or_forwards:
  "(intercepted w \<longrightarrow> rsiw_Write d w = ((0, None), w)) \<and>
   (\<not> intercepted w \<longrightarrow>
      fst (rsiw_Write d w) = rw_reply (ehw_ResponseWriter (rsiw_ResponseWriter w)) d \<and>
      snd (rsiw_Write d w) =
        w\<lparr>rsiw_ResponseWriter := (rsiw_ResponseWriter w)
            \<lparr>ehw_ResponseWriter := (ehw_ResponseWriter (rsiw_ResponseWriter w))
                \<lparr>rw_calls := rw_calls (ehw_ResponseWriter (rsiw_ResponseWriter w)) @ [Wrote d]\<rparr>\<rparr>\<rparr>)"
  by (simp add: rsiw_Write_def ehw_Write_def base_Write_def)

theorem rsiw_Write_discards_or_forwards_witness:
  "rsiw_Write ''body'' ((new_interceptor recorder [])\<lparr>intercepted := True\<rparr>) =
     ((0, None), (new_interceptor recorder [])\<lparr>intercepted := True\<rparr>) \<and>
   fst (rsiw_Write ''body'' (new_interceptor recorder [])) = (4, None) \<and>
   rw_calls (ehw_ResponseWriter (rsiw_ResponseWriter
     (snd (rsiw_Write ''body'' (new_interceptor recorder []))))) = [Wrote ''body'']"
  using rsiw_Write_discards_or_forwards
          [of "(new_interceptor recorder [])\<lparr>intercepted := True\<rparr>" "''body''"]
        rsiw_Write_discards_or_forwards [of "new_interceptor recorder []" "''body''"]
  by (simp add: new_interceptor_def recorder_def)

text \<open>
  C7 as stated fails on the count: for three bytes the intercepted writer answers 0, not 3.
\<close>

theorem rsiw_Write_count_counterexample:
  "fst (fst (rsiw_Write ''abc'' ((new_interceptor recorder [])\<lparr>intercepted := True\<rparr>)))
     \<noteq> length ''abc''"
  by (simp add: rsiw_Write_def new_interceptor_def)

section \<open>The intercept writer: status codes\<close>

lemma intercept_loop_iff:
  "intercept_loop m sc h \<longleftrightarrow> (\<exists>fn. (sc, fn) \<in> set m \<and> fn h)"
  by (induction m sc h rule: intercept_loop.induct) auto

lemma rsiw_WriteHeader_intercepted:
  "intercepted w \<Longrightarrow> rsiw_WriteHeader sc w = w"
  by (simp add: rsiw_WriteHeader_def)

lemma fold_rsiw_WriteHeader_intercepted:
  "intercepted w \<Longrightarrow> fold rsiw_WriteHeader cs w = w"
  by (induction cs) (simp_all add: rsiw_WriteHeader_intercepted)

text \<open>
  C8, as the code has it. The writer keeps no trace of having forwarded a status: its
  only guard is the \<^verbatim>\<open>intercepted\<close> flag. So intercepted is terminal (no sequence of
  \<^verbatim>\<open>WriteHeader\<close> calls changes anything of the writer). From idle and from forwarded
  alike every \<^verbatim>\<open>WriteHeader\<close> records its status code and leaves the predicates as
  they are; when a predicate registered for the code holds it enters intercepted and the
  inner writer is not touched (the status line is swallowed), otherwise the excluded
  headers are deleted, the status is appended to the calls of the inner writer, and the
  state is forwarded.
\<close>

theorem rsiw_WriteHeader_transitions:
  "(wstate_of w = Intercepted \<longrightarrow> fold rsiw_WriteHeader cs w = w) \<and>
   (wstate_of w \<noteq> Intercepted \<longrightarrow>
      statusCode (rsiw_WriteHeader sc w) = sc \<and>
      wstate_of (rsiw_WriteHeader sc w) =
        (if intercept_loop (interceptMap w) sc (ehw_Header (rsiw_ResponseWriter w))
         then Intercepted else Forwarded) \<and>
      interceptMap (rsiw_WriteHeader sc w) = interceptMap w \<and>
      rsiw_ResponseWriter (rsiw_WriteHeader sc w) =
        (if intercept_loop (interceptMap w) sc (ehw_Header (rsiw_ResponseWriter w))
         then rsiw_ResponseWriter w
         else (rsiw_ResponseWriter w)
                \<lparr>ehw_ResponseWriter := (ehw_ResponseWriter (rsiw_ResponseWriter w))
                   \<lparr>rw_header :=
                      fold hDel (excludedHeaders (rsiw_ResponseWriter w))
                        (rw_header (ehw_ResponseWriter (rsiw_ResponseWriter w))),
                    rw_calls :=
                      rw_calls (ehw_ResponseWriter (rsiw_ResponseWriter w)) @
                      [WroteHeader sc]\<rparr>\<rparr>))"
proof (intro conjI impI)
  assume "wstate_of w = Intercepted"
  then have "intercepted w"
    by (simp add: wstate_of_def split: if_splits)
  then show "fold rsiw_WriteHeader cs w = w"
    by (rule fold_rsiw_WriteHeader_intercepted)
next
  assume "wstate_of w \<noteq> Intercepted"
  then have idle: "\<not> intercepted w"
    by (simp add: wstate_of_def split: if_splits)
  then show "statusCode (rsiw_WriteHeader sc w) = sc"
    by (simp add: rsiw_WriteHeader_def)
  from idle show "wstate_of (rsiw_WriteHeader sc w) =
        (if intercept_loop (interceptMap w) sc (ehw_Header (rsiw_ResponseWriter w))
         then Intercepted else Forwarded)"
    by (simp add: rsiw_WriteHeader_def wstate_of_def ehw_WriteHeader_def base_WriteHeader_def)
  from idle show "interceptMap (rsiw_WriteHeader sc w) = interceptMap w"
    by (simp add: rsiw_WriteHeader_def)
  from idle show "rsiw_ResponseWriter (rsiw_WriteHeader sc w) =
        (if intercept_loop (interceptMap w) sc (ehw_Header (rsiw_ResponseWriter w))
         then rsiw_ResponseWriter w
         else (rsiw_ResponseWriter w)
                \<lparr>ehw_ResponseWriter := (ehw_ResponseWriter (rsiw_ResponseWriter w))
                   \<lparr>rw_header :=
                      fold hDel (excludedHeaders (rsiw_ResponseWriter w))
                        (rw_header (ehw_ResponseWriter (rsiw_ResponseWriter w))),
                    rw_calls :=
                      rw_calls (ehw_ResponseWriter (rsiw_ResponseWriter w)) @
                      [WroteHeader sc]\<rparr>\<rparr>)"
    by (simp add: rsiw_WriteHeader_def ehw_WriteHeader_def base_WriteHeader_def)
qed

text \<open>A writer for a router that has a handler for 404 only.\<close>

definition writer404 :: routingStatusInterceptWriter where
  "writer404 = new_interceptor recorder [(404, flag_absent)]"

lemma writer404_facts:
  "wstate_of writer404 \<noteq> Intercepted"
  "wstate_of (rsiw_WriteHeader 200 writer404) \<noteq> Intercepted"
  "wstate_of (rsiw_WriteHeader 404 writer404) = Intercepted"
  by (simp_all add: writer404_def new_interceptor_def recorder_def wstate_of_def ehw_Header_def
        flag_absent_def hGet_def rsiw_WriteHeader_def)

theorem rsiw_WriteHeader_transitions_witness:
  "wstate_of writer404 = Idle \<and>
   wstate_of (rsiw_WriteHeader 404 writer404) = Intercepted \<and>
   rw_calls (ehw_ResponseWriter (rsiw_ResponseWriter (rsiw_WriteHeader 404 writer404))) = [] \<and>
   fold rsiw_WriteHeader [200, 500] (rsiw_WriteHeader 404 writer404) =
     rsiw_WriteHeader 404 writer404 \<and>
   statusCode (rsiw_WriteHeader 200 writer404) = 200 \<and>
   wstate_of (rsiw_WriteHeader 200 writer404) = Forwarded \<and>
   rw_calls (ehw_ResponseWriter (rsiw_ResponseWriter (rsiw_WriteHeader 200 writer404))) =
     [WroteHeader 200] \<and>
   statusCode (rsiw_WriteHeader 201 (rsiw_WriteHeader 200 writer404)) = 201 \<and>
   rw_calls (ehw_ResponseWriter (rsiw_ResponseWriter
      (rsiw_WriteHeader 201 (rsiw_WriteHeader 200 writer404)))) =
     [WroteHeader 200, WroteHeader 201]"
proof -
  note terminal =
    rsiw_WriteHeader_transitions
      [of "rsiw_WriteHeader 404 writer404" "[200, 500]" 0, THEN conjunct1, THEN mp,
       OF writer404_facts(3)]
  note from_idle_404 =
    rsiw_WriteHeader_transitions
      [of writer404 "[]" 404, THEN conjunct2, THEN mp, OF writer404_facts(1)]
  note from_idle_200 =
    rsiw_WriteHeader_transitions
      [of writer404 "[]" 200, THEN conjunct2, THEN mp, OF writer404_facts(1)]
  note from_forwarded =
    rsiw_WriteHeader_transitions
      [of "rsiw_WriteHeader 200 writer404" "[]" 201, THEN conjunct2, THEN mp,
       OF writer404_facts(2)]
  have idle: "wstate_of writer404 = Idle"
    by (simp add: writer404_def new_interceptor_def recorder_def wstate_of_def)
  have m404: "intercept_loop (interceptMap writer404) 404
                (ehw_Header (rsiw_ResponseWriter writer404))"
    and m200: "\<not> intercept_loop (interceptMap writer404) 200
                (ehw_Header (rsiw_ResponseWriter writer404))"
    and m201: "\<not> intercept_loop (interceptMap writer404) 201 h" for h
    by (simp_all add: writer404_def new_interceptor_def recorder_def ehw_Header_def
          flag_absent_def hGet_def)
  have calls0: "rw_calls (ehw_ResponseWriter (rsiw_ResponseWriter writer404)) = []"
    by (simp add: writer404_def new_interceptor_def recorder_def)
  from from_idle_200 m200 calls0
  have s200: "statusCode (rsiw_WriteHeader 200 writer404) = 200"
    and w200: "wstate_of (rsiw_WriteHeader 200 writer404) = Forwarded"
    and i200: "interceptMap (rsiw_WriteHeader 200 writer404) = interceptMap writer404"
    and c200: "rw_calls (ehw_ResponseWriter (rsiw_ResponseWriter
                 (rsiw_WriteHeader 200 writer404))) = [WroteHeader 200]"
    by simp_all
  from from_idle_404 m404 calls0
  have c404: "rw_calls (ehw_ResponseWriter (rsiw_ResponseWriter
                 (rsiw_WriteHeader 404 writer404))) = []"
    by simp
  from from_forwarded m201 i200 c200
  have s201: "statusCode (rsiw_WriteHeader 201 (rsiw_WriteHeader 200 writer404)) = 201"
    and c201: "rw_calls (ehw_ResponseWriter (rsiw_ResponseWriter
                 (rsiw_WriteHeader 201 (rsiw_WriteHeader 200 writer404)))) =
               [WroteHeader 200, WroteHeader 201]"
    by simp_all
  from idle writer404_facts(3) c404 terminal s200 w200 c200 s201 c201
  show ?thesis by simp
qed

text \<open>
  C8 as stated fails for the forwarded state: after a forwarded 200, a 404 for which a
  handler exists still flips the writer to intercepted and replaces the recorded status.
\<close>

theorem forwarded_not_terminal_counterexample:
  "wstate_of (rsiw_WriteHeader 200 writer404) = Forwarded \<and>
   statusCode (rsiw_WriteHeader 200 writer404) = 200 \<and>
   wstate_of (rsiw_WriteHeader 404 (rsiw_WriteHeader 200 writer404)) = Intercepted \<and>
   statusCode (rsiw_WriteHeader 404 (rsiw_WriteHeader 200 writer404)) = 404"
  by (simp add: writer404_def new_interceptor_def recorder_def wstate_of_def ehw_Header_def
        flag_absent_def hGet_def hDel_def rsiw_WriteHeader_def ehw_WriteHeader_def
        base_WriteHeader_def HeaderFlagDoNotIntercept_def)

section \<open>The OpenAPI document\<close>

text \<open>
  The document types of \<^verbatim>\<open>openapi.go\<close>. Go maps are association lists read through
  \<^const>\<open>map_of\<close> and written with \<^const>\<open>AList.update\<close>; a nil map and an empty map
  are both \<open>[]\<close> where the code treats them alike. Fields the router never assigns nor
  reads (\<^verbatim>\<open>Format\<close>, \<^verbatim>\<open>Required\<close> of a schema) and the fields of an operation that are
  only copied through or computed from the path alone (\<^verbatim>\<open>OperationID\<close>, \<^verbatim>\<open>Parameters\<close>,
  \<^verbatim>\<open>Security\<close>) are left out.
\<close>

datatype Schema =
  Schema (Ref: string) (Type: string) (Properties: "(string \<times> Schema) list")
    (Items: "Schema option")

record MediaType =
  mt_Schema :: "Schema option"

record Response =
  resp_Description :: string
  resp_Content :: "(string \<times> MediaType) list"

record RequestBody =
  rb_Description :: string
  rb_Content :: "(string \<times> MediaType) list"
  rb_Required :: bool

record Operation =
  op_Tags :: "string list"
  op_Summary :: string
  op_Description :: string
  op_RequestBody :: "RequestBody option"
  op_Responses :: "(string \<times> Response) list"

record PathItem =
  Get :: "Operation option"
  Post :: "Operation option"
  Put :: "Operation option"
  Delete :: "Operation option"
  Patch :: "Operation option"

definition empty_PathItem :: PathItem where
  "empty_PathItem = \<lparr>Get = None, Post = None, Put = None, Delete = None, Patch = None\<rparr>"

definition Methods :: "PathItem \<Rightarrow> string list" where
  "Methods p =
     (if Get p \<noteq> None then [''GET''] else []) @
     (if Post p \<noteq> None then [''POST''] else []) @
     (if Put p \<noteq> None then [''PUT''] else []) @
     (if Delete p \<noteq> None then [''DELETE''] else []) @
     (if Patch p \<noteq> None then [''PATCH''] else [])"

definition SetMethod :: "string \<Rightarrow> Operation \<Rightarrow> PathItem \<Rightarrow> PathItem" where
  "SetMethod m operation p =
     (if m = ''GET'' then p\<lparr>Get := Some operation\<rparr>
      else if m = ''POST'' then p\<lparr>Post := Some operation\<rparr>
      else if m = ''PUT'' then p\<lparr>Put := Some operation\<rparr>
      else if m = ''DELETE'' then p\<lparr>Delete := Some operation\<rparr>
      else if m = ''PATCH'' then p\<lparr>Patch := Some operation\<rparr>
      else p)"

section \<open>Sample values and reflection\<close>

text \<open>
  A documentation sample is a Go value of type \<^verbatim>\<open>any\<close>; the translators look at it
  through \<^verbatim>\<open>reflect\<close> only. A type is its kind, its name (empty for an unnamed type) and,
  where it has them, its fields (name, value of the \<^verbatim>\<open>json\<close> tag, type) or element type;
  \<open>TPrim\<close> stands for the kinds without fields or element here (numbers, strings,
  booleans, maps, interfaces, functions, channels). A value is the nil interface, a value
  of a type (for a pointer type: its nil pointer), or a non-nil pointer to a value.
  Every \<^verbatim>\<open>reflect\<close> call that panics in Go is a \<open>panic\<close> result. (The other
  panics of the router are a call through a nil handler, an index out of range, and a
  registration that the host multiplexer refuses.)
\<close>

datatype kind =
  KInvalid | KBool | KInt | KInt8 | KInt16 | KInt32 | KInt64
| KUint | KUint8 | KUint16 | KUint32 | KUint64 | KUintptr
| KFloat32 | KFloat64 | KComplex64 | KComplex128
| KArray | KChan | KFunc | KInterface | KMap | KPtr | KSlice | KString | KStruct
| KUnsafePointer

datatype gotype =
  TPrim kind string
| TStruct string "(string \<times> string \<times> gotype) list"
| TSlice string gotype
| TArray string gotype
| TPtr string gotype

datatype goval = GNil | GOf gotype | GPtrTo goval

datatype panic = ReflectPanic string | NilDereference | IndexOutOfRange | MuxPanic string

definition pbind :: "panic + 'a \<Rightarrow> ('a \<Rightarrow> panic + 'b) \<Rightarrow> panic + 'b" where
  "pbind m f = (case m of Inl e \<Rightarrow> Inl e | Inr a \<Rightarrow> f a)"

fun kind_of :: "gotype \<Rightarrow> kind" where
  "kind_of (TPrim k n) = k"
| "kind_of (TStruct n fs) = KStruct"
| "kind_of (TSlice n e) = KSlice"
| "kind_of (TArray n e) = KArray"
| "kind_of (TPtr n e) = KPtr"

fun tName :: "gotype \<Rightarrow> string" where
  "tName (TPrim k n) = n"
| "tName (TStruct n fs) = n"
| "tName (TSlice n e) = n"
| "tName (TArray n e) = n"
| "tName (TPtr n e) = n"

fun tElem :: "gotype \<Rightarrow> panic + gotype" where
  "tElem (TSlice n e) = Inr e"
| "tElem (TArray n e) = Inr e"
| "tElem (TPtr n e) = Inr e"
| "tElem t = Inl (ReflectPanic ''Type.Elem'')"

fun vKind :: "goval \<Rightarrow> kind" where
  "vKind GNil = KInvalid"
| "vKind (GOf t) = kind_of t"
| "vKind (GPtrTo v) = KPtr"

fun vElem :: "goval \<Rightarrow> panic + goval" where
  "vElem (GPtrTo v) = Inr v"
| "vElem (GOf (TPtr n e)) = Inr GNil"
| "vElem v = Inl (ReflectPanic ''Value.Elem'')"

fun vType :: "goval \<Rightarrow> panic + gotype" where
  "vType GNil = Inl (ReflectPanic ''Value.Type on zero Value'')"
| "vType (GOf t) = Inr t"
| "vType (GPtrTo v) = pbind (vType v) (\<lambda>t. Inr (TPtr [] t))"

fun vFields :: "goval \<Rightarrow> panic + (string \<times> string \<times> gotype) list" where
  "vFields (GOf (TStruct n fs)) = Inr fs"
| "vFields v = Inl (ReflectPanic ''Value.NumField'')"

text \<open>\<^verbatim>\<open>if obj.Kind() == reflect.Ptr { obj = obj.Elem() }\<close>\<close>

definition deref :: "goval \<Rightarrow> panic + goval" where
  "deref obj = (if vKind obj = KPtr then vElem obj else Inr obj)"

section \<open>Translating samples into schemas\<close>

definition ref_schema :: "string \<Rightarrow> Schema" where
  "ref_schema name = Schema (''#/components/schemas/'' @ name) [] [] None"

definition typed_schema :: "string \<Rightarrow> Schema" where
  "typed_schema t = Schema [] t [] None"

text \<open>The \<^verbatim>\<open>switch fieldKind\<close> of \<^verbatim>\<open>handleDocOut\<close>.\<close>

definition typeName :: "kind \<Rightarrow> string" where
  "typeName k =
     (if k = KString then ''string''
      else if k \<in> {KInt, KInt8, KInt16, KInt32, KInt64} then ''integer''
      else if k \<in> {KFloat32, KFloat64} then ''number''
      else if k = KBool then ''boolean''
      else if k = KStruct then ''object''
      else if k \<in> {KSlice, KArray} then ''array''
      else ''string'')"

text \<open>
  The field loops. In \<^verbatim>\<open>handleDocOut\<close> the property is named by the \<^verbatim>\<open>json\<close> tag up to
  its first comma when the tag is neither empty nor \<^verbatim>\<open>-\<close>, and typed by the field's kind;
  in \<^verbatim>\<open>handleDocIn\<close> it is named by the Go field name and typed by the name of the
  field's Go type.
\<close>

definition out_fieldName :: "string \<Rightarrow> string \<Rightarrow> string" where
  "out_fieldName fieldName jsonTag =
     (if jsonTag \<noteq> [] \<and> jsonTag \<noteq> ''-'' then takeWhile (\<lambda>c. c \<noteq> CHR '','') jsonTag
      else fieldName)"

fun out_properties ::
  "(string \<times> string \<times> gotype) list \<Rightarrow> (string \<times> Schema) list \<Rightarrow> (string \<times> Schema) list" where
  "out_properties [] properties = properties"
| "out_properties ((fieldName, jsonTag, ft) # fs) properties =
     out_properties fs
       (AList.update (out_fieldName fieldName jsonTag) (typed_schema (typeName (kind_of ft)))
          properties)"

fun in_properties ::
  "(string \<times> string \<times> gotype) list \<Rightarrow> (string \<times> Schema) list \<Rightarrow> (string \<times> Schema) list" where
  "in_properties [] properties = properties"
| "in_properties ((fieldName, jsonTag, ft) # fs) properties =
     in_properties fs (AList.update fieldName (typed_schema (tName ft)) properties)"

text \<open>
  One iteration of the loop of \<^verbatim>\<open>handleDocOut\<close> up to the response entry: the schema
  of the media type, and the component derived for the store when there is one.
\<close>

definition docOut_schema ::
  "(string \<times> Schema) list \<Rightarrow> goval \<Rightarrow> panic + (Schema option \<times> (string \<times> Schema) option)" where
  "docOut_schema schemas object =
     (if object = GNil then Inr (None, None)
      else pbind (deref object) (\<lambda>obj.
        pbind (vType obj) (\<lambda>t.
          if map_of schemas (tName t) \<noteq> None then Inr (Some (ref_schema (tName t)), None)
          else if vKind obj = KSlice then
            pbind (tElem t) (\<lambda>elementType.
              pbind (vFields (GOf elementType)) (\<lambda>fs.
                Inr (Some (Schema [] ''array'' [] (Some (ref_schema (tName elementType)))),
                     Some (tName elementType, Schema [] ''array'' (out_properties fs []) None))))
          else
            pbind (vFields obj) (\<lambda>fs.
              Inr (Some (ref_schema (tName t)),
                   Some (tName t, Schema [] ''object'' (out_properties fs []) None))))))"

record DocOut =
  ApplicationType :: string
  out_Description :: string
  out_Object :: goval

record DocIn =
  in_Object :: goval
  in_Required :: bool

fun handleDocOut_loop ::
  "(string \<times> DocOut) list \<Rightarrow> (string \<times> Schema) list \<Rightarrow>
   (string \<times> Schema) list \<times> (string \<times> Response) list option \<Rightarrow>
   panic + ((string \<times> Schema) list \<times> (string \<times> Response) list option)" where
  "handleDocOut_loop [] schemas acc = Inr acc"
| "handleDocOut_loop ((responseCode, docOut) # rest) schemas (componentSchemas, routeResponse) =
     pbind (docOut_schema schemas (out_Object docOut)) (\<lambda>(schema, component).
       handleDocOut_loop rest schemas
         (case component of None \<Rightarrow> componentSchemas
          | Some (name, c) \<Rightarrow> AList.update name c componentSchemas,
          Some (AList.update responseCode
                  \<lparr>resp_Description = out_Description docOut,
                   resp_Content = [(ApplicationType docOut, \<lparr>mt_Schema = schema\<rparr>)]\<rparr>
                  (case routeResponse of None \<Rightarrow> [] | Some r \<Rightarrow> r))))"

definition handleDocOut ::
  "(string \<times> DocOut) list \<Rightarrow> (string \<times> Schema) list \<Rightarrow>
   panic + ((string \<times> Schema) list \<times> (string \<times> Response) list option)" where
  "handleDocOut do schemas = handleDocOut_loop do schemas ([], None)"

definition docIn_schema ::
  "(string \<times> Schema) list \<Rightarrow> goval \<Rightarrow> panic + (string \<times> (string \<times> Schema) option)" where
  "docIn_schema schemas object =
     pbind (deref object) (\<lambda>obj.
       pbind (vType obj) (\<lambda>t.
         if map_of schemas (tName t) \<noteq> None then Inr (tName t, None)
         else pbind (vFields obj) (\<lambda>fs.
           Inr (tName t, Some (tName t, Schema [] ''object'' (in_properties fs []) None)))))"

fun handleDocIn_loop ::
  "(string \<times> DocIn) list \<Rightarrow> (string \<times> Schema) list \<Rightarrow>
   (string \<times> Schema) list \<times> RequestBody option \<Rightarrow>
   panic + ((string \<times> Schema) list \<times> RequestBody option)" where
  "handleDocIn_loop [] schemas acc = Inr acc"
| "handleDocIn_loop ((contentType, docIn) # rest) schemas (componentSchemas, requestBody) =
     pbind (docIn_schema schemas (in_Object docIn)) (\<lambda>(name, component).
       handleDocIn_loop rest schemas
         (case component of None \<Rightarrow> componentSchemas
          | Some (n, c) \<Rightarrow> AList.update n c componentSchemas,
          Some (let body = (case requestBody of
                              None \<Rightarrow> \<lparr>rb_Description = [], rb_Content = [], rb_Required = False\<rparr>
                            | Some b \<Rightarrow> b)
                in body\<lparr>rb_Content :=
                     AList.update contentType \<lparr>mt_Schema = Some (ref_schema name)\<rparr>
                       (rb_Content body)\<rparr>)))"

definition handleDocIn ::
  "(string \<times> DocIn) list \<Rightarrow> (string \<times> Schema) list \<Rightarrow>
   panic + ((string \<times> Schema) list \<times> RequestBody option)" where
  "handleDocIn do schemas = handleDocIn_loop do schemas ([], None)"

section \<open>The router tree and its shared state\<close>

text \<open>
  A handler is modelled by what it does to the writer it is given: the list of header
  changes, \<^verbatim>\<open>WriteHeader\<close> and \<^verbatim>\<open>Write\<close> calls it makes for a request. A middleware
  maps a handler to a handler.
\<close>

datatype wop = SetHeader string string | DelHeader string | CallWriteHeader int | CallWrite bytes

record request =
  req_method :: string
  req_path :: string

type_synonym handler = "request \<Rightarrow> wop list"

type_synonym Middleware = "handler \<Rightarrow> handler"

text \<open>
  Every node reaches the state of the root through \<^verbatim>\<open>rootParent()\<close>; the model passes
  that state along explicitly. It holds the patterns registered on the host multiplexer
  (in registration order), the
  status handlers (a Go map shared by reference with every group; a value may be nil),
  the pattern map, the paths and the schema components of the document, and whether the
  root's \<^verbatim>\<open>sync.Once\<close> has fired.
\<close>

record root =
  mux :: "(string \<times> handler) list"
  handleStatus :: "(int \<times> handler option) list"
  patternMap :: "(string \<times> string) list"
  Paths :: "(string \<times> PathItem) list"
  Schemas :: "(string \<times> Schema) list"
  once_done :: bool

record Router =
  basePath :: string
  redirectTrailingSlash :: bool
  openapiDocs :: bool
  middlewares :: "Middleware list"

record Docs =
  doc_Tags :: "string list"
  doc_Summary :: string
  doc_Description :: string
  doc_RequestBody :: "RequestBody option"
  doc_Responses :: "(string \<times> Response) list"
  doc_In :: "(string \<times> DocIn) list"
  doc_Out :: "(string \<times> DocOut) list"

definition DefaultRedirectTrailingSlash :: bool where
  "DefaultRedirectTrailingSlash = False"

definition DefaultRedirectStatusCode :: int where
  "DefaultRedirectStatusCode = 307"

definition DefaultUseOpenapiDocs :: bool where
  "DefaultUseOpenapiDocs = False"

definition New :: "Router \<times> root" where
  "New =
     (\<lparr>basePath = [], redirectTrailingSlash = DefaultRedirectTrailingSlash,
       openapiDocs = DefaultUseOpenapiDocs, middlewares = []\<rparr>,
      \<lparr>mux = [], handleStatus = [], patternMap = [], Paths = [], Schemas = [],
       once_done = False\<rparr>)"

definition Group :: "Router \<Rightarrow> string \<Rightarrow> Router" where
  "Group r sub =
     \<lparr>basePath = basePath r @ sub, redirectTrailingSlash = redirectTrailingSlash r,
      openapiDocs = openapiDocs r, middlewares = [] @ middlewares r\<rparr>"

definition Use :: "Middleware \<Rightarrow> Router \<Rightarrow> Router" where
  "Use middleware r = r\<lparr>middlewares := middlewares r @ [middleware]\<rparr>"

definition RedirectTrailingSlash :: "bool \<Rightarrow> Router \<Rightarrow> Router" where
  "RedirectTrailingSlash redirect r = r\<lparr>redirectTrailingSlash := redirect\<rparr>"

definition UseOpenapiDocs :: "bool \<Rightarrow> Router \<Rightarrow> Router" where
  "UseOpenapiDocs use r = r\<lparr>openapiDocs := use\<rparr>"

definition HandleStatus :: "int \<Rightarrow> handler option \<Rightarrow> root \<Rightarrow> root" where
  "HandleStatus httpStatus h rt = rt\<lparr>handleStatus := AList.update httpStatus h (handleStatus rt)\<rparr>"

text \<open>
  The loop \<^verbatim>\<open>for i := len(r.middlewares) - 1; i >= 0; i-- { finalHandler =
  r.middlewares[i](finalHandler) }\<close> of \<^verbatim>\<open>registerRoute\<close>.
\<close>

function wrap_from :: "('h \<Rightarrow> 'h) list \<Rightarrow> int \<Rightarrow> 'h \<Rightarrow> 'h" where
  "wrap_from ms i finalHandler =
     (if i \<ge> 0 then wrap_from ms (i - 1) ((ms ! nat i) finalHandler) else finalHandler)"
  by pat_completeness auto
termination
  by (relation "measure (\<lambda>(ms, i, h). nat (i + 1))") auto

declare wrap_from.simps [simp del]

text \<open>
  \<^verbatim>\<open>registerRoute\<close> hands the pattern to \<^verbatim>\<open>mux.Handle\<close>, which panics on a pattern
  that the multiplexer refuses. That ends the program while it is being set up; the
  states below are those of programs that got past their setup, so the registration is
  taken as accepted here. (Registrations made while a request is served are checked, see
  \<open>registerOptionsHandler\<close>.)
\<close>

definition registerRoute :: "Router \<Rightarrow> string \<Rightarrow> string \<Rightarrow> handler \<Rightarrow> root \<Rightarrow> root" where
  "registerRoute r m pattern h rt =
     rt\<lparr>mux := mux rt @
        [(m @ '' '' @ pattern, wrap_from (middlewares r) (int (length (middlewares r)) - 1) h)]\<rparr>"

text \<open>\<^verbatim>\<open>strings.ReplaceAll(pattern, "{$}", "")\<close>: every occurrence, left to right.\<close>

fun strip_marker :: "string \<Rightarrow> string" where
  "strip_marker (a # b # c # cs) =
     (if a = CHR ''{'' \<and> b = CHR ''$'' \<and> c = CHR ''}'' then strip_marker cs
      else a # strip_marker (b # c # cs))"
| "strip_marker cs = cs"

text \<open>
  The two \<^verbatim>\<open>for na, cs := range componentSchema\<close> loops of \<^verbatim>\<open>registerDocs\<close>: a name
  already in the store is skipped.
\<close>

fun merge_components ::
  "(string \<times> Schema) list \<Rightarrow> (string \<times> Schema) list \<Rightarrow> (string \<times> Schema) list" where
  "merge_components [] schemas = schemas"
| "merge_components ((na, cs) # rest) schemas =
     merge_components rest
       (if map_of schemas na \<noteq> None then schemas else AList.update na cs schemas)"

text \<open>
  \<^verbatim>\<open>registerDocs\<close>. The path item is looked up under the pattern as registered and
  stored under the pattern stripped of the marker. A panic of a translator leaves the
  function at once; the model does not follow the program past a panic.
\<close>

definition registerDocs :: "string \<Rightarrow> string \<Rightarrow> Docs list \<Rightarrow> root \<Rightarrow> panic + root" where
  "registerDocs m pattern docs rt =
     (case docs of [] \<Rightarrow> Inr rt
      | doc # _ \<Rightarrow>
        (let stripPattern = strip_marker pattern;
             rt1 = rt\<lparr>patternMap := AList.update stripPattern pattern (patternMap rt)\<rparr>;
             pathItem = (case map_of (Paths rt1) pattern of
                           None \<Rightarrow> empty_PathItem | Some p \<Rightarrow> p);
             op = \<lparr>op_Tags = doc_Tags doc, op_Summary = doc_Summary doc,
                   op_Description = doc_Description doc,
                   op_RequestBody = doc_RequestBody doc,
                   op_Responses = doc_Responses doc\<rparr>
         in pbind (handleDocOut (doc_Out doc) (Schemas rt1)) (\<lambda>(componentSchema, routeResponse).
              let rt2 = rt1\<lparr>Schemas := merge_components componentSchema (Schemas rt1)\<rparr>;
                  op1 = (case routeResponse of None \<Rightarrow> op
                         | Some rr \<Rightarrow> op\<lparr>op_Responses := rr\<rparr>)
              in pbind (handleDocIn (doc_In doc) (Schemas rt2)) (\<lambda>(componentSchema', requestBody).
                   let rt3 = rt2\<lparr>Schemas := merge_components componentSchema' (Schemas rt2)\<rparr>;
                       op2 = (case requestBody of None \<Rightarrow> op1
                              | Some rb \<Rightarrow> op1\<lparr>op_RequestBody := Some rb\<rparr>)
                   in Inr (rt3\<lparr>Paths :=
                             AList.update stripPattern (SetMethod m op2 pathItem) (Paths rt3)\<rparr>)))))"

definition handle ::
  "Router \<Rightarrow> string \<Rightarrow> string \<Rightarrow> handler \<Rightarrow> Docs list \<Rightarrow> root \<Rightarrow> panic + root" where
  "handle r m pattern h docs rt =
     (let p1 = (if basePath r \<noteq> [] then basePath r @ pattern else pattern);
          p2 = (if p1 = [] then ''/'' else if hd p1 \<noteq> CHR ''/'' then ''/'' @ p1 else p1);
          rt1 = registerRoute r m p2 h rt
      in if openapiDocs r then registerDocs m p2 docs rt1 else Inr rt1)"

text \<open>The pattern as \<^verbatim>\<open>handle\<close> normalises it before it registers anything.\<close>

definition normalize :: "Router \<Rightarrow> string \<Rightarrow> string" where
  "normalize r pattern =
     (let p1 = (if basePath r \<noteq> [] then basePath r @ pattern else pattern)
      in if p1 = [] then ''/'' else if hd p1 \<noteq> CHR ''/'' then ''/'' @ p1 else p1)"

lemma handle_cases:
  "handle r m p h docs rt =
     (if openapiDocs r
      then registerDocs m (normalize r p) docs (registerRoute r m (normalize r p) h rt)
      else Inr (registerRoute r m (normalize r p) h rt))"
  by (simp add: handle_def normalize_def Let_def)

section \<open>Concrete routers and samples\<close>

text \<open>
  A root router with documentation switched on, a handler, and the declarations used in
  the examples below: \<open>User\<close> is the struct of the repository's example program; 
  \<open>other_User\<close> is a struct of the same name and another shape (as a type of another
  package would be).
\<close>

definition ok_handler :: handler where
  "ok_handler req = [CallWrite ''ok'']"

definition docs_router :: Router where
  "docs_router = UseOpenapiDocs True (fst New)"

definition plain_docs :: Docs where
  "plain_docs =
     \<lparr>doc_Tags = [], doc_Summary = [], doc_Description = [], doc_RequestBody = None,
      doc_Responses = [], doc_In = [], doc_Out = []\<rparr>"

definition out_docs :: "goval \<Rightarrow> Docs" where
  "out_docs sample =
     plain_docs\<lparr>doc_Out :=
       [(''200'', \<lparr>ApplicationType = ''application/json'', out_Description = [],
                 out_Object = sample\<rparr>)]\<rparr>"

definition in_docs :: "goval \<Rightarrow> Docs" where
  "in_docs sample =
     plain_docs\<lparr>doc_In :=
       [(''application/json'', \<lparr>in_Object = sample, in_Required = False\<rparr>)]\<rparr>"

definition User :: gotype where
  "User = TStruct ''User''
     [(''ID'', ''id'', TPrim KString ''string''), (''Name'', ''name'', TPrim KString ''string'')]"

definition other_User :: gotype where
  "other_User = TStruct ''User''
     [(''Email'', ''email,omitempty'', TPrim KString ''string''), (''Age'', [], TPrim KInt ''int'')]"

definition User_schema :: Schema where
  "User_schema = Schema [] ''object''
     [(''id'', typed_schema ''string''), (''name'', typed_schema ''string'')] None"

lemmas eval_defs = handle_cases normalize_def docs_router_def UseOpenapiDocs_def New_def
  registerDocs_def registerRoute_def Let_def pbind_def handleDocIn_def handleDocOut_def
  docOut_schema_def docIn_schema_def deref_def out_docs_def in_docs_def plain_docs_def
  out_fieldName_def typeName_def typed_schema_def SetMethod_def empty_PathItem_def
  DefaultRedirectTrailingSlash_def DefaultUseOpenapiDocs_def

section \<open>Schema components: the first registration wins\<close>

lemma map_of_merge_components:
  "map_of (merge_components cs schemas) n =
     (case map_of schemas n of Some c \<Rightarrow> Some c | None \<Rightarrow> map_of cs n)"
  by (induction cs arbitrary: schemas) (auto simp: update_conv' split: option.splits)

lemma distinct_merge_components:
  "distinct (map fst schemas) \<Longrightarrow> distinct (map fst (merge_components cs schemas))"
  by (induction cs arbitrary: schemas) (auto simp: distinct_update)

lemma filter_key_distinct:
  "distinct (map fst al) \<Longrightarrow> map_of al n = Some c \<Longrightarrow> filter (\<lambda>e. fst e = n) al = [(n, c)]"
proof (induction al)
  case Nil
  then show ?case by simp
next
  case (Cons a al)
  show ?case
  proof (cases "fst a = n")
    case True
    with Cons.prems have "a = (n, c)" by (cases a) simp
    moreover from True Cons.prems have "filter (\<lambda>e. fst e = n) al = []"
      by (auto simp: filter_empty_conv image_iff)
    ultimately show ?thesis by simp
  next
    case False
    with Cons show ?thesis by (cases a) auto
  qed
qed

lemma registerDocs_Schemas:
  assumes "registerDocs m p (doc # ds) rt = Inr rt'"
  shows "\<exists>cs rr cs' rb.
           handleDocOut (doc_Out doc) (Schemas rt) = Inr (cs, rr) \<and>
           handleDocIn (doc_In doc) (merge_components cs (Schemas rt)) = Inr (cs', rb) \<and>
           Schemas rt' = merge_components cs' (merge_components cs (Schemas rt))"
  using assms
  by (auto simp: registerDocs_def pbind_def Let_def split: sum.splits prod.splits)

lemma registerDocs_keeps_schema:
  assumes "registerDocs m p docs rt = Inr rt'" and "map_of (Schemas rt) n = Some c"
  shows "map_of (Schemas rt') n = Some c"
proof (cases docs)
  case Nil
  with assms show ?thesis by (simp add: registerDocs_def)
next
  case (Cons doc ds)
  with assms(1) obtain cs cs' where
    "Schemas rt' = merge_components cs' (merge_components cs (Schemas rt))"
    using registerDocs_Schemas by blast
  with assms(2) show ?thesis by (simp add: map_of_merge_components)
qed

lemma registerDocs_distinct:
  assumes "registerDocs m p docs rt = Inr rt'" and "distinct (map fst (Schemas rt))"
  shows "distinct (map fst (Schemas rt'))"
proof (cases docs)
  case Nil
  with assms show ?thesis by (simp add: registerDocs_def)
next
  case (Cons doc ds)
  with assms(1) obtain cs cs' where
    "Schemas rt' = merge_components cs' (merge_components cs (Schemas rt))"
    using registerDocs_Schemas by blast
  with assms(2) show ?thesis by (simp add: distinct_merge_components)
qed

lemma Schemas_registerRoute: "Schemas (registerRoute r m p h rt) = Schemas rt"
  by (simp add: registerRoute_def)

lemma handle_keeps_schema:
  assumes "handle r m p h docs rt = Inr rt'" and "map_of (Schemas rt) n = Some c"
  shows "map_of (Schemas rt') n = Some c"
  using assms
    registerDocs_keeps_schema
      [of m "normalize r p" docs "registerRoute r m (normalize r p) h rt" rt' n c]
  by (auto simp: handle_cases Schemas_registerRoute split: if_splits)

lemma handle_distinct:
  assumes "handle r m p h docs rt = Inr rt'" and "distinct (map fst (Schemas rt))"
  shows "distinct (map fst (Schemas rt'))"
  using assms
    registerDocs_distinct [of m "normalize r p" docs "registerRoute r m (normalize r p) h rt" rt']
  by (auto simp: handle_cases Schemas_registerRoute split: if_splits)

text \<open>
  What a struct sample named \<open>n\<close> gives: the component built from its fields while the
  store has no \<open>n\<close>, and only the reference once it has.
\<close>

lemma docOut_schema_struct:
  "docOut_schema schemas (GOf (TStruct n fs)) =
     (if map_of schemas n = None
      then Inr (Some (ref_schema n), Some (n, Schema [] ''object'' (out_properties fs []) None))
      else Inr (Some (ref_schema n), None))"
  by (simp add: docOut_schema_def deref_def pbind_def)

lemma docIn_schema_struct:
  "docIn_schema schemas (GOf (TStruct n fs)) =
     (if map_of schemas n = None
      then Inr (n, Some (n, Schema [] ''object'' (in_properties fs []) None))
      else Inr (n, None))"
  by (simp add: docIn_schema_def deref_def pbind_def)

text \<open>
  C5. Take a first registration, on a node with documentation on, and a name \<open>n\<close> that
  the store does not hold yet. Let \<open>c\<close> be the component that this registration derives
  under \<open>n\<close>: from its response declarations or, when these derive none under \<open>n\<close>, from
  its request-body declarations. Take any second registration that completes (on any
  node, for any pattern, with any declarations, of the same name or not). Afterwards the
  store holds exactly one entry under \<open>n\<close>, and it is \<open>c\<close>.
\<close>

theorem schema_first_registration_wins:
  assumes first: "handle r1 m1 p1 h1 (doc1 # ds1) rt = Inr rt1"
    and second: "handle r2 m2 p2 h2 docs2 rt1 = Inr rt2"
    and docs: "openapiDocs r1"
    and dist: "distinct (map fst (Schemas rt))"
    and fresh: "map_of (Schemas rt) n = None"
    and derived: "handleDocOut (doc_Out doc1) (Schemas rt) = Inr (cs, rr)"
    and derived_in: "handleDocIn (doc_In doc1) (merge_components cs (Schemas rt)) = Inr (cs', rb)"
    and named: "map_of cs n = Some c \<or> (map_of cs n = None \<and> map_of cs' n = Some c)"
  shows "filter (\<lambda>e. fst e = n) (Schemas rt2) = [(n, c)]"
proof -
  from first docs
  have "registerDocs m1 (normalize r1 p1) (doc1 # ds1)
          (registerRoute r1 m1 (normalize r1 p1) h1 rt) = Inr rt1"
    by (simp add: handle_cases)
  then obtain cs0 rr0 cs0' rb0 where
    out: "handleDocOut (doc_Out doc1) (Schemas rt) = Inr (cs0, rr0)" and
    inn: "handleDocIn (doc_In doc1) (merge_components cs0 (Schemas rt)) = Inr (cs0', rb0)" and
    st: "Schemas rt1 = merge_components cs0' (merge_components cs0 (Schemas rt))"
    using registerDocs_Schemas
      [of m1 "normalize r1 p1" doc1 ds1 "registerRoute r1 m1 (normalize r1 p1) h1 rt" rt1]
    by (auto simp: Schemas_registerRoute)
  from out derived have cs0: "cs0 = cs" by simp
  with inn derived_in have "cs0' = cs'" by simp
  with st cs0 fresh named have "map_of (Schemas rt1) n = Some c"
    by (auto simp: map_of_merge_components)
  with second have "map_of (Schemas rt2) n = Some c"
    by (rule handle_keeps_schema)
  moreover from first dist have "distinct (map fst (Schemas rt1))"
    by (rule handle_distinct)
  with second have "distinct (map fst (Schemas rt2))"
    by (rule handle_distinct)
  ultimately show ?thesis by (simp add: filter_key_distinct)
qed

text \<open>
  Two pairs of registrations. In the first pair both declare a response sample named
  \<open>User\<close>, of different shapes. In the second pair the first registration declares
  \<open>Account\<close> as a request body only, and the second declares it as a response: the store
  keeps the component of the request body.
\<close>

definition Account :: gotype where
  "Account = TStruct ''Account''
     [(''ID'', ''id'', TPrim KString ''string''), (''Balance'', [], TPrim KInt ''int'')]"

definition Account_in_schema :: Schema where
  "Account_in_schema = Schema [] ''object''
     [(''ID'', typed_schema ''string''), (''Balance'', typed_schema ''int'')] None"

definition after_first :: root where
  "after_first =
     (case handle docs_router ''GET'' ''/users/{id}'' ok_handler [out_docs (GOf User)] (snd New)
      of Inr rt \<Rightarrow> rt | Inl e \<Rightarrow> snd New)"

definition after_second :: root where
  "after_second =
     (case handle docs_router ''GET'' ''/accounts/{id}'' ok_handler [out_docs (GOf other_User)]
             after_first
      of Inr rt \<Rightarrow> rt | Inl e \<Rightarrow> snd New)"

definition after_body :: root where
  "after_body =
     (case handle docs_router ''POST'' ''/accounts'' ok_handler [in_docs (GOf Account)] (snd New)
      of Inr rt \<Rightarrow> rt | Inl e \<Rightarrow> snd New)"

definition after_body_second :: root where
  "after_body_second =
     (case handle docs_router ''GET'' ''/accounts/{id}'' ok_handler [out_docs (GOf Account)]
             after_body
      of Inr rt \<Rightarrow> rt | Inl e \<Rightarrow> snd New)"

lemma handleDocOut_User:
  "handleDocOut (doc_Out (out_docs (GOf User))) (Schemas (snd New)) =
     Inr ([(''User'', User_schema)],
          Some [(''200'', \<lparr>resp_Description = [], resp_Content =
                   [(''application/json'', \<lparr>mt_Schema = Some (ref_schema ''User'')\<rparr>)]\<rparr>)])"
  by (simp add: eval_defs User_def User_schema_def)

lemma handleDocIn_User:
  "handleDocIn (doc_In (out_docs (GOf User)))
     (merge_components [(''User'', User_schema)] (Schemas (snd New))) =
     Inr ([], None)"
  by (simp add: eval_defs)

lemma handleDocOut_Account:
  "handleDocOut (doc_Out (in_docs (GOf Account))) (Schemas (snd New)) = Inr ([], None)"
  by (simp add: eval_defs)

lemma handleDocIn_Account:
  "handleDocIn (doc_In (in_docs (GOf Account))) (merge_components [] (Schemas (snd New))) =
     Inr ([(''Account'', Account_in_schema)],
          Some \<lparr>rb_Description = [],
                rb_Content = [(''application/json'',
                               \<lparr>mt_Schema = Some (ref_schema ''Account'')\<rparr>)],
                rb_Required = False\<rparr>)"
  by (simp add: eval_defs Account_def Account_in_schema_def)

lemma Schemas_after_first: "Schemas after_first = [(''User'', User_schema)]"
  by (simp add: after_first_def eval_defs User_def User_schema_def)

lemma Schemas_after_body: "Schemas after_body = [(''Account'', Account_in_schema)]"
  by (simp add: after_body_def eval_defs Account_def Account_in_schema_def)

lemma first_registration:
  "handle docs_router ''GET'' ''/users/{id}'' ok_handler [out_docs (GOf User)] (snd New) =
     Inr after_first"
  by (simp add: after_first_def eval_defs User_def)

lemma second_registration:
  "handle docs_router ''GET'' ''/accounts/{id}'' ok_handler [out_docs (GOf other_User)]
     after_first = Inr after_second"
  by (simp add: after_second_def eval_defs Schemas_after_first other_User_def)

lemma body_registration:
  "handle docs_router ''POST'' ''/accounts'' ok_handler [in_docs (GOf Account)] (snd New) =
     Inr after_body"
  by (simp add: after_body_def eval_defs Account_def)

lemma body_second_registration:
  "handle docs_router ''GET'' ''/accounts/{id}'' ok_handler [out_docs (GOf Account)]
     after_body = Inr after_body_second"
  by (simp add: after_body_second_def eval_defs Schemas_after_body Account_def)

lemma docs_router_on: "openapiDocs docs_router"
  by (simp add: docs_router_def UseOpenapiDocs_def)

lemma New_store: "distinct (map fst (Schemas (snd New)))" "map_of (Schemas (snd New)) n = None"
  "Schemas (snd New) = []"
  by (simp_all add: New_def)

theorem schema_first_registration_wins_witness:
  "handle docs_router ''GET'' ''/users/{id}'' ok_handler [out_docs (GOf User)] (snd New) =
     Inr after_first \<and>
   handle docs_router ''GET'' ''/accounts/{id}'' ok_handler [out_docs (GOf other_User)]
     after_first = Inr after_second \<and>
   filter (\<lambda>e. fst e = ''User'') (Schemas after_second) = [(''User'', User_schema)] \<and>
   handle docs_router ''POST'' ''/accounts'' ok_handler [in_docs (GOf Account)] (snd New) =
     Inr after_body \<and>
   handle docs_router ''GET'' ''/accounts/{id}'' ok_handler [out_docs (GOf Account)]
     after_body = Inr after_body_second \<and>
   filter (\<lambda>e. fst e = ''Account'') (Schemas after_body_second) =
     [(''Account'', Account_in_schema)]"
proof -
  have "map_of [(''User'', User_schema)] ''User'' = Some User_schema \<or>
        (map_of [(''User'', User_schema)] ''User'' = None \<and>
         map_of ([] :: (string \<times> Schema) list) ''User'' = Some User_schema)"
    by simp
  then have a: "filter (\<lambda>e. fst e = ''User'') (Schemas after_second) = [(''User'', User_schema)]"
    by (rule schema_first_registration_wins
          [OF first_registration second_registration docs_router_on New_store(1) New_store(2)
              handleDocOut_User handleDocIn_User])
  have "map_of ([] :: (string \<times> Schema) list) ''Account'' = Some Account_in_schema \<or>
        (map_of ([] :: (string \<times> Schema) list) ''Account'' = None \<and>
         map_of [(''Account'', Account_in_schema)] ''Account'' = Some Account_in_schema)"
    by simp
  then have b: "filter (\<lambda>e. fst e = ''Account'') (Schemas after_body_second) =
                  [(''Account'', Account_in_schema)]"
    by (rule schema_first_registration_wins
          [OF body_registration body_second_registration docs_router_on New_store(1)
              New_store(2) handleDocOut_Account handleDocIn_Account])
  from a b first_registration second_registration body_registration body_second_registration
  show ?thesis by simp
qed

section \<open>Samples the translators cannot take\<close>

text \<open>
  Both translators call \<^verbatim>\<open>NumField\<close> on whatever the sample is once its name is not in
  the store, and \<^verbatim>\<open>handleDocIn\<close> calls \<^verbatim>\<open>Type\<close> without the nil test that
  \<^verbatim>\<open>handleDocOut\<close> has. Only the kind of a field falls back to \<^verbatim>\<open>string\<close>.
\<close>

lemma typeName_default:
  "k \<notin> {KString, KInt, KInt8, KInt16, KInt32, KInt64, KFloat32, KFloat64, KBool, KStruct,
          KSlice, KArray} \<Longrightarrow> typeName k = ''string''"
  by (simp add: typeName_def)

lemma docOut_schema_nil: "docOut_schema schemas GNil = Inr (None, None)"
  by (simp add: docOut_schema_def)

text \<open>
  C6 at three declarations: a string as output sample, a slice of strings as output
  sample, and a nil request-body sample. Each registration ends in a panic of
  \<^verbatim>\<open>reflect\<close>.
\<close>

theorem unsupported_sample_panics:
  "handle docs_router ''GET'' ''/ping'' ok_handler
     [out_docs (GOf (TPrim KString ''string''))] (snd New) =
     Inl (ReflectPanic ''Value.NumField'') \<and>
   handle docs_router ''GET'' ''/tags'' ok_handler
     [out_docs (GOf (TSlice [] (TPrim KString ''string'')))] (snd New) =
     Inl (ReflectPanic ''Value.NumField'') \<and>
   handle docs_router ''POST'' ''/users'' ok_handler [in_docs GNil] (snd New) =
     Inl (ReflectPanic ''Value.Type on zero Value'')"
  by (simp add: eval_defs)

section \<open>Request bodies against responses\<close>

text \<open>
  C9 at the struct \<^verbatim>\<open>Account{ID string `json:"id"`; Balance int}\<close>: the component
  derived for a request body names the properties by the Go field names and types them by
  the Go type names, the component derived for a response uses the \<^verbatim>\<open>json\<close> names and
  the OpenAPI type names.
\<close>

theorem input_output_translation_differ:
  "map_option fst (case handleDocIn (doc_In (in_docs (GOf Account))) [] of
                     Inl e \<Rightarrow> None | Inr x \<Rightarrow> Some x) =
     Some [(''Account'', Schema [] ''object''
              [(''ID'', typed_schema ''string''), (''Balance'', typed_schema ''int'')] None)] \<and>
   map_option fst (case handleDocOut (doc_Out (out_docs (GOf Account))) [] of
                     Inl e \<Rightarrow> None | Inr x \<Rightarrow> Some x) =
     Some [(''Account'', Schema [] ''object''
              [(''id'', typed_schema ''string''), (''Balance'', typed_schema ''integer'')] None)]"
  by (simp add: eval_defs Account_def)

section \<open>Path descriptors\<close>

text \<open>
  For a pattern without the marker the lookup key and the store key of
  \<^verbatim>\<open>registerDocs\<close> are the same, and a registration that completes rewrites exactly that
  descriptor, with the operation set for its method.
\<close>

lemma registerDocs_descriptor:
  assumes "registerDocs m p (doc # ds) rt = Inr rt'" and "strip_marker p = p"
  shows "\<exists>operation. map_of (Paths rt') =
           (map_of (Paths rt))(p \<mapsto> SetMethod m operation
              (case map_of (Paths rt) p of None \<Rightarrow> empty_PathItem | Some item \<Rightarrow> item))"
  using assms
  by (auto simp: registerDocs_def pbind_def Let_def update_conv' split: sum.splits prod.splits)

text \<open>
  C3 at the pattern \<^verbatim>\<open>/{$}\<close>, registered for GET and then for POST with declarations: the
  descriptor of \<^verbatim>\<open>/\<close> is looked up under \<^verbatim>\<open>/{$}\<close>, never found, and rebuilt from the
  empty descriptor, so the GET operation is gone after the second registration.
\<close>

theorem marker_pattern_loses_operation:
  "(case pbind (handle docs_router ''GET'' ''/{$}'' ok_handler [plain_docs] (snd New))
           (handle docs_router ''POST'' ''/{$}'' ok_handler [plain_docs]) of
      Inl e \<Rightarrow> []
    | Inr rt \<Rightarrow> map (\<lambda>(p, item). (p, Methods item)) (Paths rt)) = [(''/'', [''POST''])]"
  by (simp add: eval_defs Methods_def)

section \<open>Middleware composition\<close>

lemma wrap_from_take:
  "i < int (length ms) \<Longrightarrow>
     wrap_from ms i h = foldr (\<lambda>mw f. mw f) (take (nat (i + 1)) ms) h"
proof (induction ms i h rule: wrap_from.induct)
  case (1 ms i finalHandler)
  show ?case
  proof (cases "i \<ge> 0")
    case True
    then have idx: "nat i < length ms" and suc: "nat (i + 1) = Suc (nat i)"
      using "1.prems" by auto
    have "wrap_from ms i finalHandler = wrap_from ms (i - 1) ((ms ! nat i) finalHandler)"
      using True by (simp add: wrap_from.simps [of ms i])
    also have "\<dots> = foldr (\<lambda>mw f. mw f) (take (nat i) ms) ((ms ! nat i) finalHandler)"
      using "1.IH" [OF True] "1.prems" by simp
    also have "\<dots> = foldr (\<lambda>mw f. mw f) (take (nat i) ms @ [ms ! nat i]) finalHandler"
      by simp
    also have "take (nat i) ms @ [ms ! nat i] = take (nat (i + 1)) ms"
      using idx suc by (simp add: take_Suc_conv_app_nth)
    finally show ?thesis .
  next
    case False
    then show ?thesis by (simp add: wrap_from.simps [of ms i])
  qed
qed

lemma wrap_from_all:
  "wrap_from ms (int (length ms) - 1) h = foldr (\<lambda>mw f. mw f) ms h"
  using wrap_from_take [of "int (length ms) - 1" ms h] by simp

lemma middlewares_fold_Use: "middlewares (fold Use us r) = middlewares r @ us"
  by (induction us arbitrary: r) (simp_all add: Use_def)

lemma middlewares_Group: "middlewares (Group r sub) = middlewares r"
  by (simp add: Group_def)

lemma registerDocs_mux: "registerDocs m p docs rt = Inr rt' \<Longrightarrow> mux rt' = mux rt"
  by (cases docs)
     (auto simp: registerDocs_def pbind_def Let_def split: sum.splits prod.splits)

lemma handle_mux:
  assumes "handle r m p h docs rt = Inr rt'"
  shows "mux rt' = mux rt @ [(m @ '' '' @ normalize r p, foldr (\<lambda>mw f. mw f) (middlewares r) h)]"
proof (cases "openapiDocs r")
  case True
  with assms have "mux rt' = mux (registerRoute r m (normalize r p) h rt)"
    by (simp add: handle_cases registerDocs_mux)
  then show ?thesis by (simp add: registerRoute_def wrap_from_all)
next
  case False
  with assms show ?thesis by (auto simp: handle_cases registerRoute_def wrap_from_all)
qed

text \<open>
  A middleware that observes: it writes a mark when the request reaches it, calls the
  next handler, and writes a mark when the response comes back.
\<close>

definition tracing :: "string \<Rightarrow> Middleware" where
  "tracing name next =
     (\<lambda>req. CallWrite (''>'' @ name) # next req @ [CallWrite (''<'' @ name)])"

lemma foldr_tracing:
  "foldr (\<lambda>mw f. mw f) (map tracing names) h req =
     map (\<lambda>n. CallWrite (''>'' @ n)) names @ h req @ map (\<lambda>n. CallWrite (''<'' @ n)) (rev names)"
  by (induction names) (simp_all add: tracing_def)

text \<open>
  C2. A route registered on a node \<open>r\<close> gets the handler \<open>m\<^sub>0 (m\<^sub>1 (\<dots> (m\<^sub>k h)))\<close> for the
  middleware list \<open>[m\<^sub>0, \<dots>, m\<^sub>k]\<close> the node has at that moment. A route registered on a
  group of \<open>r\<close>, after the uses \<open>us\<close> on that group, gets the chain of \<open>r\<close> (as it was when
  the group was made) around the chain of \<open>us\<close> around the handler. For observing
  middlewares the marks show the order: the request passes them from the first added to
  the last, the response from the last to the first.
\<close>

theorem middleware_composition:
  assumes "handle r m p h docs rt = Inr rt1"
    and "handle (fold Use us (Group r sub)) m' p' h' docs' rt = Inr rt2"
  shows "mux rt1 =
           mux rt @ [(m @ '' '' @ normalize r p, foldr (\<lambda>mw f. mw f) (middlewares r) h)] \<and>
         mux rt2 =
           mux rt @ [(m' @ '' '' @ normalize (fold Use us (Group r sub)) p',
                      foldr (\<lambda>mw f. mw f) (middlewares r) (foldr (\<lambda>mw f. mw f) us h'))] \<and>
         foldr (\<lambda>mw f. mw f) (map tracing names) h req =
           map (\<lambda>n. CallWrite (''>'' @ n)) names @ h req @
           map (\<lambda>n. CallWrite (''<'' @ n)) (rev names)"
  using handle_mux [OF assms(1)] handle_mux [OF assms(2)]
  by (simp add: middlewares_fold_Use middlewares_Group foldr_tracing)

text \<open>
  The router of the documentation's example: a global logging middleware, a group
  \<^verbatim>\<open>/admin\<close> that adds an authentication middleware, and a route in the group.
\<close>

definition logging_root :: Router where
  "logging_root = Use (tracing ''log'') (fst New)"

definition get_request :: "string \<Rightarrow> request" where
  "get_request path = \<lparr>req_method = ''GET'', req_path = path\<rparr>"

theorem middleware_composition_witness:
  "map (\<lambda>(pattern, f). (pattern, f (get_request ''/'')))
     (mux (registerRoute logging_root ''GET'' ''/'' ok_handler (snd New))) =
     [(''GET /'', [CallWrite ''>log'', CallWrite ''ok'', CallWrite ''<log''])] \<and>
   map (\<lambda>(pattern, f). (pattern, f (get_request ''/admin/dashboard'')))
     (mux (registerRoute (fold Use [tracing ''auth''] (Group logging_root ''/admin'')) ''GET''
             ''/admin/dashboard'' ok_handler (snd New))) =
     [(''GET /admin/dashboard'',
       [CallWrite ''>log'', CallWrite ''>auth'', CallWrite ''ok'', CallWrite ''<auth'',
        CallWrite ''<log''])]"
  using middleware_composition
          [where r = logging_root and m = "''GET''" and p = "''/''" and h = ok_handler
             and docs = "[]" and rt = "snd New"
             and ?rt1.0 = "registerRoute logging_root ''GET'' ''/'' ok_handler (snd New)"
             and us = "[tracing ''auth'']" and sub = "''/admin''" and m' = "''GET''"
             and p' = "''/dashboard''" and h' = ok_handler and docs' = "[]"
             and ?rt2.0 = "registerRoute (fold Use [tracing ''auth''] (Group logging_root ''/admin''))
                 ''GET'' ''/admin/dashboard'' ok_handler (snd New)"
             and names = "[]" and req = "get_request ''/''"]
  by (simp add: handle_cases normalize_def logging_root_def Use_def Group_def New_def
        DefaultUseOpenapiDocs_def tracing_def ok_handler_def)

section \<open>Serving a request\<close>

text \<open>\<^verbatim>\<open>strings.Join\<close> and the generic \<^verbatim>\<open>addIfMissing\<close>.\<close>

fun join :: "string list \<Rightarrow> string \<Rightarrow> string" where
  "join [] sep = []"
| "join [x] sep = x"
| "join (x # y # ys) sep = x @ sep @ join (y # ys) sep"

definition addIfMissing :: "'a list \<Rightarrow> 'a \<Rightarrow> bool \<Rightarrow> 'a list" where
  "addIfMissing slice element prepend =
     (if element \<in> set slice then slice
      else if prepend then [element] @ slice
      else slice @ [element])"

definition getMethodsForPattern :: "root \<Rightarrow> string \<Rightarrow> string list" where
  "getMethodsForPattern rt pattern =
     (case map_of (Paths rt) pattern of
        None \<Rightarrow> []
      | Some routeInfo \<Rightarrow>
          (let m1 = (if Get routeInfo \<noteq> None then addIfMissing [] ''GET'' False else []);
               m2 = (if Post routeInfo \<noteq> None then addIfMissing m1 ''POST'' False else m1);
               m3 = (if Put routeInfo \<noteq> None then addIfMissing m2 ''PUT'' False else m2);
               m4 = (if Delete routeInfo \<noteq> None then addIfMissing m3 ''DELETE'' False else m3)
           in if Patch routeInfo \<noteq> None then addIfMissing m4 ''PATCH'' False else m4))"

text \<open>
  The host multiplexer is a parameter of everything that happens while a request is
  served: \<open>hm_serve\<close> gives, for the registered patterns and the request, what the
  multiplexer and the handler it selects do to the writer they are given; \<open>hm_admits\<close>
  says whether the multiplexer accepts a new pattern beside the registered ones
  (\<^verbatim>\<open>Handle\<close> and \<^verbatim>\<open>HandleFunc\<close> panic when it does not: the pattern conflicts with a
  registered one or does not parse).
\<close>

record hostMux =
  hm_serve :: "(string \<times> handler) list \<Rightarrow> request \<Rightarrow> wop list"
  hm_admits :: "string list \<Rightarrow> string \<Rightarrow> bool"

text \<open>
  The handler that \<^verbatim>\<open>registerOptionsHandler\<close> builds, and the function itself. The
  descriptor is looked up under the pattern that the pattern map gives for the stripped
  pattern. The call of \<^verbatim>\<open>mux.HandleFunc\<close> panics when the multiplexer refuses the
  pattern.
\<close>

definition optionsHandler :: "string list \<Rightarrow> handler" where
  "optionsHandler methods =
     (\<lambda>req. [SetHeader ''Allow'' (join methods '', ''), CallWriteHeader 204])"

definition registerOptionsHandler :: "hostMux \<Rightarrow> string \<Rightarrow> root \<Rightarrow> panic + root" where
  "registerOptionsHandler host strippedPattern rt =
     (let pattern = (case map_of (patternMap rt) strippedPattern of
                       Some p \<Rightarrow> p | None \<Rightarrow> strippedPattern)
      in case map_of (Paths rt) pattern of
           None \<Rightarrow> Inr rt
         | Some routeInfo \<Rightarrow>
             if length (Methods routeInfo) = 0 then Inr rt
             else if hm_admits host (map fst (mux rt)) (''OPTIONS '' @ pattern)
               then Inr (rt\<lparr>mux := mux rt @
                      [(''OPTIONS '' @ pattern,
                        optionsHandler (addIfMissing (Methods routeInfo) ''OPTIONS'' True))]\<rparr>)
               else Inl (MuxPanic (''OPTIONS '' @ pattern)))"

text \<open>
  The \<^verbatim>\<open>r.once.Do\<close> block at the head of \<^verbatim>\<open>ServeHTTP\<close>, run only with documentation
  on: one \<^verbatim>\<open>registerOptionsHandler\<close> per key of the paths, in the order the map is
  ranged over. A panic inside leaves \<^verbatim>\<open>ServeHTTP\<close> at once (and \<^verbatim>\<open>sync.Once\<close> does
  not run the block again).
\<close>

fun options_loop :: "hostMux \<Rightarrow> string list \<Rightarrow> root \<Rightarrow> panic + root" where
  "options_loop host [] rt = Inr rt"
| "options_loop host (p # ps) rt =
     pbind (registerOptionsHandler host p rt) (options_loop host ps)"

definition once_options :: "hostMux \<Rightarrow> Router \<Rightarrow> root \<Rightarrow> panic + root" where
  "once_options host r rt =
     (if openapiDocs r \<and> \<not> once_done rt
      then pbind (options_loop host (map fst (Paths rt)) rt)
             (\<lambda>rt'. Inr (rt'\<lparr>once_done := True\<rparr>))
      else Inr rt)"

text \<open>
  What a handler does, on the interceptor (handlers run by the multiplexer) and on the
  header-erasing writer (status handlers run by the router).
\<close>

fun run_intercepted ::
  "wop \<Rightarrow> routingStatusInterceptWriter \<Rightarrow> routingStatusInterceptWriter" where
  "run_intercepted (SetHeader k v) w =
     w\<lparr>rsiw_ResponseWriter := ehw_setHeader k v (rsiw_ResponseWriter w)\<rparr>"
| "run_intercepted (DelHeader k) w =
     w\<lparr>rsiw_ResponseWriter := ehw_delHeader k (rsiw_ResponseWriter w)\<rparr>"
| "run_intercepted (CallWriteHeader sc) w = rsiw_WriteHeader sc w"
| "run_intercepted (CallWrite d) w = snd (rsiw_Write d w)"

fun run_direct :: "wop \<Rightarrow> excludeHeaderWriter \<Rightarrow> excludeHeaderWriter" where
  "run_direct (SetHeader k v) w = ehw_setHeader k v w"
| "run_direct (DelHeader k) w = ehw_delHeader k w"
| "run_direct (CallWriteHeader sc) w = ehw_WriteHeader sc w"
| "run_direct (CallWrite d) w = snd (ehw_Write d w)"

text \<open>
  The test \<^verbatim>\<open>req.URL.Path != "/" && req.URL.Path[len(req.URL.Path)-1] == '/'\<close>: the
  index expression is evaluated for every path other than \<^verbatim>\<open>/\<close>, and for the empty path
  the index is \<open>-1\<close>.
\<close>

definition trailing_slash :: "string \<Rightarrow> panic + bool" where
  "trailing_slash path =
     (if path \<noteq> ''/'' then
        (if length path = 0 then Inl IndexOutOfRange else Inr (path ! (length path - 1) = CHR ''/''))
      else Inr False)"

text \<open>
  The part of \<^verbatim>\<open>ServeHTTP\<close> after the delegated dispatch: the status handler to call,
  if any, and the writer it is called with.
\<close>

definition override ::
  "root \<Rightarrow> request \<Rightarrow> routingStatusInterceptWriter \<Rightarrow>
   panic + (handler option \<times> excludeHeaderWriter)" where
  "override rt req interceptor =
     (if intercepted interceptor then
        if statusCode interceptor = 405 then
          (let allowedMethods = getMethodsForPattern rt (req_path req);
               w1 = (if length allowedMethods > 0
                     then ehw_setHeader ''Allow'' (join allowedMethods '', '')
                            (rsiw_ResponseWriter interceptor)
                     else rsiw_ResponseWriter interceptor)
           in case map_of (handleStatus rt) 405 of
                Some (Some h) \<Rightarrow> Inr (Some h, w1)
              | _ \<Rightarrow> Inl NilDereference)
        else
          (case map_of (handleStatus rt) (statusCode interceptor) of
             Some (Some v) \<Rightarrow> Inr (Some v, rsiw_ResponseWriter interceptor)
           | Some None \<Rightarrow> Inl NilDereference
           | None \<Rightarrow> Inr (None, rsiw_ResponseWriter interceptor))
      else Inr (None, rsiw_ResponseWriter interceptor))"

text \<open>
  \<^verbatim>\<open>ServeHTTP\<close> of the root. \<open>dispatch\<close> is the body of \<^verbatim>\<open>ServeHTTP\<close> from the
  construction of the interceptor on. \<^verbatim>\<open>http.Redirect\<close> is logged with the url and the
  code that the router passes to it.
\<close>

definition interceptMap_of ::
  "(int \<times> handler option) list \<Rightarrow> (int \<times> (header \<Rightarrow> bool)) list" where
  "interceptMap_of hs =
     map (\<lambda>(k, v). (k, \<lambda>h. v \<noteq> None \<and> hGet h HeaderFlagDoNotIntercept = [])) hs"

definition dispatch ::
  "hostMux \<Rightarrow> root \<Rightarrow> responseWriter \<Rightarrow> request \<Rightarrow> panic + (root \<times> responseWriter)" where
  "dispatch host rt w req =
     (let interceptor =
            fold run_intercepted (hm_serve host (mux rt) req)
              (new_interceptor w (interceptMap_of (handleStatus rt)))
      in pbind (override rt req interceptor)
           (\<lambda>(h, ew).
              Inr (rt, ehw_ResponseWriter
                         (case h of None \<Rightarrow> ew | Some f \<Rightarrow> fold run_direct (f req) ew))))"

definition ServeHTTP ::
  "hostMux \<Rightarrow> Router \<Rightarrow> root \<Rightarrow> responseWriter \<Rightarrow> request \<Rightarrow>
   panic + (root \<times> responseWriter)" where
  "ServeHTTP host r rt w req =
     pbind (once_options host r rt)
       (\<lambda>rt1.
          pbind (if redirectTrailingSlash r then trailing_slash (req_path req) else Inr False)
            (\<lambda>redirect.
               if redirect
               then Inr (rt1, http_Redirect (take (length (req_path req) - 1) (req_path req))
                                DefaultRedirectStatusCode w)
               else dispatch host rt1 w req))"

text \<open>
  A stand-in for the host multiplexer, used in the examples. It serves literal patterns:
  the handler registered for the method and the path when there is one (for HEAD also the
  handler registered for GET); otherwise the multiplexer's own 405 with its \<^verbatim>\<open>Allow\<close>
  header when the path has handlers for other methods, and its own 404 when it has none.
  It refuses a pattern that equals a registered one up to the names of the wildcards.
\<close>

definition http_methods :: "string list" where
  "http_methods = [''DELETE'', ''GET'', ''HEAD'', ''OPTIONS'', ''PATCH'', ''POST'', ''PUT'']"

definition registered_methods :: "(string \<times> handler) list \<Rightarrow> string \<Rightarrow> string list" where
  "registered_methods routes path =
     filter (\<lambda>m. map_of routes (m @ '' '' @ path) \<noteq> None) http_methods"

definition matching_methods :: "(string \<times> handler) list \<Rightarrow> string \<Rightarrow> string list" where
  "matching_methods routes path =
     filter (\<lambda>m. map_of routes (m @ '' '' @ path) \<noteq> None \<or>
                 (m = ''HEAD'' \<and> map_of routes (''GET '' @ path) \<noteq> None)) http_methods"

definition literal_serve :: "(string \<times> handler) list \<Rightarrow> request \<Rightarrow> wop list" where
  "literal_serve routes req =
     (case map_of routes (req_method req @ '' '' @ req_path req) of
        Some h \<Rightarrow> h req
      | None \<Rightarrow>
          (case (if req_method req = ''HEAD'' then map_of routes (''GET '' @ req_path req)
                 else None) of
             Some h \<Rightarrow> h req
           | None \<Rightarrow>
               if matching_methods routes (req_path req) \<noteq> []
               then [SetHeader ''Allow'' (join (matching_methods routes (req_path req)) '', ''),
                     CallWriteHeader 405, CallWrite ''Method Not Allowed'']
               else [CallWriteHeader 404, CallWrite ''404 page not found'']))"

fun erase_names :: "bool \<Rightarrow> string \<Rightarrow> string" where
  "erase_names inside [] = []"
| "erase_names inside (c # cs) =
     (if inside
      then (if c = CHR ''}'' then c # erase_names False cs
            else if c = CHR ''$'' \<or> c = CHR ''.'' then c # erase_names True cs
            else erase_names True cs)
      else c # erase_names (c = CHR ''{'') cs)"

definition literal_admits :: "string list \<Rightarrow> string \<Rightarrow> bool" where
  "literal_admits patterns pattern =
     (erase_names False pattern \<notin> set (map (erase_names False) patterns))"

definition literal_mux :: hostMux where
  "literal_mux = \<lparr>hm_serve = literal_serve, hm_admits = literal_admits\<rparr>"

section \<open>Trailing slashes\<close>

text \<open>
  With redirection on, a request for a non-empty path other than \<^verbatim>\<open>/\<close> that ends in a
  slash is answered by a call of \<^verbatim>\<open>http.Redirect\<close> with the path without its last
  character; the multiplexer is not asked to serve (the result does not depend on
  \<open>hm_serve\<close>). Every other non-empty path, and every path with redirection off, goes to
  the dispatch. Both come after the \<^verbatim>\<open>once.Do\<close> block.
\<close>

lemma ServeHTTP_redirect:
  assumes "once_options host r rt = Inr rt1"
    and "redirectTrailingSlash r" and "req_path req \<noteq> []" and "req_path req \<noteq> ''/''"
    and "last (req_path req) = CHR ''/''"
  shows "ServeHTTP host r rt w req =
           Inr (rt1,
                w\<lparr>rw_calls := rw_calls w @
                     [Redirected (butlast (req_path req)) DefaultRedirectStatusCode]\<rparr>)"
  using assms
  by (simp add: ServeHTTP_def trailing_slash_def pbind_def http_Redirect_def
        last_conv_nth butlast_conv_take)

lemma ServeHTTP_dispatch:
  assumes "once_options host r rt = Inr rt1"
    and "\<not> redirectTrailingSlash r \<or>
         (req_path req \<noteq> [] \<and> (req_path req = ''/'' \<or> last (req_path req) \<noteq> CHR ''/''))"
  shows "ServeHTTP host r rt w req = dispatch host rt1 w req"
  using assms
  by (auto simp: ServeHTTP_def trailing_slash_def pbind_def last_conv_nth)

lemma once_options_off: "\<not> openapiDocs r \<Longrightarrow> once_options host r rt = Inr rt"
  by (simp add: once_options_def)

text \<open>
  C10 at the empty path (the request line \<^verbatim>\<open>GET http://example.com HTTP/1.1\<close> gives one):
  with redirection on, the index expression of the test panics, and the request reaches
  neither the redirect nor the dispatch.
\<close>

theorem empty_path_panics:
  "ServeHTTP literal_mux (RedirectTrailingSlash True (fst New)) (snd New) recorder
     (get_request []) = Inl IndexOutOfRange"
  by (simp add: ServeHTTP_def once_options_def trailing_slash_def pbind_def
        RedirectTrailingSlash_def New_def get_request_def DefaultUseOpenapiDocs_def)

section \<open>The discovery handlers\<close>

text \<open>The pattern under which \<^verbatim>\<open>registerOptionsHandler\<close> looks up and registers.\<close>

definition recorded_pattern :: "root \<Rightarrow> string \<Rightarrow> string" where
  "recorded_pattern rt strippedPattern =
     (case map_of (patternMap rt) strippedPattern of Some p \<Rightarrow> p | None \<Rightarrow> strippedPattern)"

lemma Methods_no_OPTIONS: "''OPTIONS'' \<notin> set (Methods item)"
  by (simp add: Methods_def)

lemma distinct_Methods: "distinct (Methods item)"
  by (simp add: Methods_def)

lemma set_Methods:
  "set (Methods item) =
     {m. (m = ''GET'' \<and> Get item \<noteq> None) \<or> (m = ''POST'' \<and> Post item \<noteq> None) \<or>
         (m = ''PUT'' \<and> Put item \<noteq> None) \<or> (m = ''DELETE'' \<and> Delete item \<noteq> None) \<or>
         (m = ''PATCH'' \<and> Patch item \<noteq> None)}"
  by (auto simp: Methods_def)

lemma registerOptionsHandler_keeps:
  assumes "registerOptionsHandler host p rt = Inr rt'"
  shows "Paths rt' = Paths rt \<and> patternMap rt' = patternMap rt \<and>
         handleStatus rt' = handleStatus rt \<and> once_done rt' = once_done rt \<and>
         set (mux rt) \<subseteq> set (mux rt')"
  using assms
  by (auto simp: registerOptionsHandler_def Let_def split: option.splits if_splits)

lemma options_loop_keeps:
  assumes "options_loop host ps rt = Inr rt'"
  shows "Paths rt' = Paths rt \<and> patternMap rt' = patternMap rt \<and>
         handleStatus rt' = handleStatus rt \<and> once_done rt' = once_done rt \<and>
         set (mux rt) \<subseteq> set (mux rt')"
  using assms
proof (induction ps arbitrary: rt)
  case Nil
  then show ?case by simp
next
  case (Cons p ps)
  from Cons.prems obtain rt0 where
    step: "registerOptionsHandler host p rt = Inr rt0" and rest: "options_loop host ps rt0 = Inr rt'"
    by (auto simp: pbind_def split: sum.splits)
  from Cons.IH [OF rest] registerOptionsHandler_keeps [OF step]
  show ?case by auto
qed

lemma registerOptionsHandler_installs:
  assumes "registerOptionsHandler host p rt = Inr rt'"
    and "map_of (Paths rt) (recorded_pattern rt p) = Some item"
    and "Methods item \<noteq> []"
  shows "(''OPTIONS '' @ recorded_pattern rt p, optionsHandler (''OPTIONS'' # Methods item))
         \<in> set (mux rt')"
  using assms
  by (auto simp: registerOptionsHandler_def recorded_pattern_def Let_def addIfMissing_def
        Methods_no_OPTIONS split: if_splits)

lemma registerOptionsHandler_refused:
  assumes "map_of (Paths rt) (recorded_pattern rt p) = Some item"
    and "Methods item \<noteq> []"
    and "\<not> hm_admits host (map fst (mux rt)) (''OPTIONS '' @ recorded_pattern rt p)"
  shows "registerOptionsHandler host p rt = Inl (MuxPanic (''OPTIONS '' @ recorded_pattern rt p))"
  using assms
  by (simp add: registerOptionsHandler_def recorded_pattern_def Let_def)

lemma registerOptionsHandler_skips:
  assumes "map_of (Paths rt) (recorded_pattern rt p) = None \<or>
           (\<exists>item. map_of (Paths rt) (recorded_pattern rt p) = Some item \<and> Methods item = [])"
  shows "registerOptionsHandler host p rt = Inr rt"
  using assms by (auto simp: registerOptionsHandler_def recorded_pattern_def Let_def)

lemma options_loop_installs:
  assumes "options_loop host ps rt = Inr rt'"
    and "p \<in> set ps"
    and "map_of (Paths rt) (recorded_pattern rt p) = Some item"
    and "Methods item \<noteq> []"
  shows "(''OPTIONS '' @ recorded_pattern rt p, optionsHandler (''OPTIONS'' # Methods item))
         \<in> set (mux rt')"
  using assms
proof (induction ps arbitrary: rt)
  case Nil
  then show ?case by simp
next
  case (Cons a ps)
  from Cons.prems(1) obtain rt0 where
    step: "registerOptionsHandler host a rt = Inr rt0" and rest: "options_loop host ps rt0 = Inr rt'"
    by (auto simp: pbind_def split: sum.splits)
  note keep = registerOptionsHandler_keeps [OF step]
  show ?case
  proof (cases "a = p")
    case True
    with step Cons.prems(3,4)
    have "(''OPTIONS '' @ recorded_pattern rt p, optionsHandler (''OPTIONS'' # Methods item))
          \<in> set (mux rt0)"
      using registerOptionsHandler_installs by blast
    with options_loop_keeps [OF rest] show ?thesis by auto
  next
    case False
    with Cons.prems(2) have "p \<in> set ps" by simp
    moreover from keep have same: "recorded_pattern rt0 p = recorded_pattern rt p"
      by (simp add: recorded_pattern_def)
    with keep Cons.prems(3) have "map_of (Paths rt0) (recorded_pattern rt0 p) = Some item"
      by simp
    ultimately have "(''OPTIONS '' @ recorded_pattern rt0 p,
        optionsHandler (''OPTIONS'' # Methods item)) \<in> set (mux rt')"
      using rest Cons.prems(4) Cons.IH by blast
    with same show ?thesis by simp
  qed
qed

lemma ServeHTTP_state:
  assumes "ServeHTTP host r rt w req = Inr (rt', w')"
  shows "once_options host r rt = Inr rt'"
  using assms
  by (auto simp: ServeHTTP_def dispatch_def pbind_def Let_def
           split: sum.splits if_splits prod.splits)

text \<open>
  C4, as the code has it. Take a root with documentation on whose \<^verbatim>\<open>once.Do\<close> block has
  not run and runs to its end at the first request (the multiplexer accepts every pattern
  the block registers; it panics at the first one that is refused). Take a path \<open>p\<close> of
  the document at that moment and the pattern recorded for \<open>p\<close> in the pattern map (\<open>p\<close>
  itself when none is). When the document has a descriptor under that pattern with at
  least one operation, the multiplexer afterwards holds, under \<^verbatim>\<open>OPTIONS\<close> and that
  pattern, a handler that sets \<^verbatim>\<open>Allow\<close> and writes status 204 and no body; the header
  lists \<^verbatim>\<open>OPTIONS\<close> and then the methods that have an operation in the descriptor, which
  are among GET, POST, PUT, DELETE and PATCH, each once. The block does not run again, and
  the state is the one every completed first request returns.
\<close>

theorem options_handler_installed:
  assumes "once_options host r rt = Inr rt1"
    and "openapiDocs r" and "\<not> once_done rt"
    and "p \<in> set (map fst (Paths rt))"
    and "map_of (Paths rt) (recorded_pattern rt p) = Some item"
    and "Methods item \<noteq> []"
  shows "(''OPTIONS '' @ recorded_pattern rt p, optionsHandler (''OPTIONS'' # Methods item))
           \<in> set (mux rt1) \<and>
         optionsHandler (''OPTIONS'' # Methods item) req' =
           [SetHeader ''Allow'' (join (''OPTIONS'' # Methods item) '', ''), CallWriteHeader 204] \<and>
         distinct (''OPTIONS'' # Methods item) \<and>
         set (Methods item) =
           {m. (m = ''GET'' \<and> Get item \<noteq> None) \<or> (m = ''POST'' \<and> Post item \<noteq> None) \<or>
               (m = ''PUT'' \<and> Put item \<noteq> None) \<or> (m = ''DELETE'' \<and> Delete item \<noteq> None) \<or>
               (m = ''PATCH'' \<and> Patch item \<noteq> None)} \<and>
         once_options host r rt1 = Inr rt1 \<and>
         (\<forall>w req rt' w'. ServeHTTP host r rt w req = Inr (rt', w') \<longrightarrow> rt' = rt1)"
proof -
  from assms(1,2,3) obtain rt0 where
    loop: "options_loop host (map fst (Paths rt)) rt = Inr rt0" and
    rt1: "rt1 = rt0\<lparr>once_done := True\<rparr>"
    by (auto simp: once_options_def pbind_def split: sum.splits)
  have "(''OPTIONS '' @ recorded_pattern rt p, optionsHandler (''OPTIONS'' # Methods item))
          \<in> set (mux rt0)"
    using loop assms(4,5,6) by (rule options_loop_installs)
  with rt1 have inst: "(''OPTIONS '' @ recorded_pattern rt p,
      optionsHandler (''OPTIONS'' # Methods item)) \<in> set (mux rt1)"
    by simp
  from rt1 have again: "once_options host r rt1 = Inr rt1"
    by (simp add: once_options_def)
  have "rt' = rt1" if "ServeHTTP host r rt w req = Inr (rt', w')" for w req rt' w'
    using ServeHTTP_state [OF that] assms(1) by simp
  with inst again show ?thesis
    by (simp add: optionsHandler_def Methods_no_OPTIONS distinct_Methods set_Methods)
qed

lemmas serve_defs = ServeHTTP_def dispatch_def once_options_def registerOptionsHandler_def
  override_def trailing_slash_def interceptMap_of_def new_interceptor_def literal_mux_def
  literal_serve_def literal_admits_def matching_methods_def
  registered_methods_def http_methods_def optionsHandler_def addIfMissing_def Methods_def
  getMethodsForPattern_def rsiw_WriteHeader_def rsiw_Write_def ehw_WriteHeader_def
  ehw_Write_def ehw_setHeader_def ehw_delHeader_def ehw_Header_def base_WriteHeader_def
  base_Write_def hGet_def hSet_def hDel_def HeaderFlagDoNotIntercept_def recorder_def

definition options_request :: "string \<Rightarrow> request" where
  "options_request path = \<lparr>req_method = ''OPTIONS'', req_path = path\<rparr>"

text \<open>GET and POST registered with declarations on \<^verbatim>\<open>/users\<close>, then a first request.\<close>

definition users_state :: root where
  "users_state =
     (case pbind (handle docs_router ''GET'' ''/users'' ok_handler [plain_docs] (snd New))
             (handle docs_router ''POST'' ''/users'' ok_handler [plain_docs]) of
        Inr rt \<Rightarrow> rt | Inl e \<Rightarrow> snd New)"

definition users_item :: PathItem where
  "users_item =
     (let operation = \<lparr>op_Tags = [], op_Summary = [], op_Description = [],
                        op_RequestBody = None, op_Responses = []\<rparr>
      in empty_PathItem\<lparr>Get := Some operation, Post := Some operation\<rparr>)"

definition users_served :: root where
  "users_served =
     (case once_options literal_mux docs_router users_state of
        Inr rt \<Rightarrow> rt | Inl e \<Rightarrow> users_state)"

lemma users_state_facts:
  "\<not> once_done users_state"
  "''/users'' \<in> set (map fst (Paths users_state))"
  "map_of (Paths users_state) (recorded_pattern users_state ''/users'') = Some users_item"
  "recorded_pattern users_state ''/users'' = ''/users''"
  by (simp_all add: users_state_def users_item_def eval_defs recorded_pattern_def)

lemma users_item_Methods: "Methods users_item = [''GET'', ''POST'']"
  by (simp add: users_item_def Methods_def empty_PathItem_def Let_def)

lemma users_once: "once_options literal_mux docs_router users_state = Inr users_served"
  by (simp add: users_served_def users_state_def eval_defs serve_defs)

theorem options_handler_installed_witness:
  "once_options literal_mux docs_router users_state = Inr users_served \<and>
   (''OPTIONS /users'', optionsHandler [''OPTIONS'', ''GET'', ''POST'']) \<in> set (mux users_served) \<and>
   optionsHandler [''OPTIONS'', ''GET'', ''POST''] (options_request ''/users'') =
     [SetHeader ''Allow'' ''OPTIONS, GET, POST'', CallWriteHeader 204] \<and>
   once_options literal_mux docs_router users_served = Inr users_served \<and>
   (case ServeHTTP literal_mux docs_router users_state recorder (options_request ''/users'') of
      Inl e \<Rightarrow> ([], [])
    | Inr (rt', w') \<Rightarrow> (hGet (rw_header w') ''Allow'', rw_calls w')) =
     (''OPTIONS, GET, POST'', [WroteHeader 204])"
proof -
  have "Methods users_item \<noteq> []"
    by (simp add: users_item_Methods)
  note installed =
    options_handler_installed
      [OF users_once docs_router_on users_state_facts(1) users_state_facts(2)
          users_state_facts(3) this, of "options_request ''/users''"]
  have served:
    "(case ServeHTTP literal_mux docs_router users_state recorder (options_request ''/users'') of
        Inl e \<Rightarrow> ([], [])
      | Inr (rt', w') \<Rightarrow> (hGet (rw_header w') ''Allow'', rw_calls w')) =
       (''OPTIONS, GET, POST'', [WroteHeader 204])"
    by (simp add: users_state_def eval_defs serve_defs options_request_def)
  from installed served users_once show ?thesis
    by (simp add: users_state_facts(4) users_item_Methods)
qed

text \<open>
  C4 as stated fails for HEAD: with GET and HEAD registered with declarations on
  \<^verbatim>\<open>/x\<close>, the discovery response of the first request lists \<^verbatim>\<open>OPTIONS\<close> and \<^verbatim>\<open>GET\<close>
  only, although the multiplexer holds a HEAD handler for the path.
\<close>

definition head_state :: root where
  "head_state =
     (case pbind (handle docs_router ''GET'' ''/x'' ok_handler [plain_docs] (snd New))
             (handle docs_router ''HEAD'' ''/x'' ok_handler [plain_docs]) of
        Inr rt \<Rightarrow> rt | Inl e \<Rightarrow> snd New)"

theorem discovery_omits_HEAD_counterexample:
  "(case ServeHTTP literal_mux docs_router head_state recorder (options_request ''/x'') of
      Inl e \<Rightarrow> ([], [])
    | Inr (rt', w') \<Rightarrow> (hGet (rw_header w') ''Allow'', rw_calls w')) =
     (''OPTIONS, GET'', [WroteHeader 204]) \<and>
   registered_methods (mux head_state) ''/x'' = [''GET'', ''HEAD'']"
  by (simp add: head_state_def eval_defs serve_defs options_request_def)

text \<open>
  A path registered with the marker gets no discovery handler at all: the pattern map
  leads from \<^verbatim>\<open>/\<close> back to \<^verbatim>\<open>/{$}\<close>, under which the document has no descriptor.
\<close>

lemma marker_path_has_no_discovery_handler:
  "(case pbind (handle docs_router ''GET'' ''/{$}'' ok_handler [plain_docs] (snd New))
           (once_options literal_mux docs_router) of
      Inl e \<Rightarrow> []
    | Inr rt \<Rightarrow> map fst (mux rt)) = [''GET /{$}'']"
  by (simp add: eval_defs serve_defs)

text \<open>
  Two documented patterns that differ in the name of a wildcard only, registered for
  different methods: their discovery patterns collide, the multiplexer refuses the
  second, and the first request panics inside the \<^verbatim>\<open>once.Do\<close> block.
\<close>

lemma conflicting_discovery_patterns_panic:
  "pbind (pbind (handle docs_router ''GET'' ''/files/{name}'' ok_handler [plain_docs] (snd New))
            (handle docs_router ''POST'' ''/files/{id}'' ok_handler [plain_docs]))
     (\<lambda>rt. ServeHTTP literal_mux docs_router rt recorder (get_request ''/files/a'')) =
   Inl (MuxPanic ''OPTIONS /files/{id}'')"
  by (simp add: eval_defs serve_defs)

section \<open>The 405 handler and the Allow header\<close>

fun is_header_op :: "wop \<Rightarrow> bool" where
  "is_header_op (SetHeader k v) = True"
| "is_header_op (DelHeader k) = True"
| "is_header_op (CallWriteHeader sc) = False"
| "is_header_op (CallWrite d) = False"

fun header_effect :: "wop \<Rightarrow> header \<Rightarrow> header" where
  "header_effect (SetHeader k v) h = hSet k v h"
| "header_effect (DelHeader k) h = hDel k h"
| "header_effect (CallWriteHeader sc) h = h"
| "header_effect (CallWrite d) h = h"

definition apply_headers :: "wop list \<Rightarrow> header \<Rightarrow> header" where
  "apply_headers ops h = fold header_effect ops h"

definition header_of :: "routingStatusInterceptWriter \<Rightarrow> header" where
  "header_of i = rw_header (ehw_ResponseWriter (rsiw_ResponseWriter i))"

definition with_header ::
  "header \<Rightarrow> routingStatusInterceptWriter \<Rightarrow> routingStatusInterceptWriter" where
  "with_header h i =
     i\<lparr>rsiw_ResponseWriter := (rsiw_ResponseWriter i)
         \<lparr>ehw_ResponseWriter := (ehw_ResponseWriter (rsiw_ResponseWriter i))\<lparr>rw_header := h\<rparr>\<rparr>\<rparr>"

lemma with_header_simps:
  "with_header h (with_header g i) = with_header h i"
  "header_of (with_header h i) = h"
  "with_header (header_of i) i = i"
  "intercepted (with_header h i) = intercepted i"
  "statusCode (with_header h i) = statusCode i"
  "interceptMap (with_header h i) = interceptMap i"
  by (simp_all add: with_header_def header_of_def)

lemma run_intercepted_header_op:
  "is_header_op x \<Longrightarrow> run_intercepted x i = with_header (header_effect x (header_of i)) i"
  by (cases x)
     (simp_all add: with_header_def header_of_def ehw_setHeader_def ehw_delHeader_def
        ehw_Header_def)

lemma fold_run_intercepted_header_ops:
  "list_all is_header_op pre \<Longrightarrow>
     fold run_intercepted pre i = with_header (apply_headers pre (header_of i)) i"
proof (induction pre arbitrary: i)
  case Nil
  then show ?case by (simp add: apply_headers_def with_header_simps)
next
  case (Cons x pre)
  then show ?case
    by (simp add: apply_headers_def run_intercepted_header_op with_header_simps)
qed

lemma run_intercepted_when_intercepted:
  "intercepted i \<Longrightarrow> run_intercepted x i = with_header (header_effect x (header_of i)) i"
  by (cases x)
     (simp_all add: with_header_def header_of_def ehw_setHeader_def ehw_delHeader_def
        ehw_Header_def rsiw_WriteHeader_def rsiw_Write_def)

lemma fold_run_intercepted_when_intercepted:
  "intercepted i \<Longrightarrow>
     fold run_intercepted ops i = with_header (apply_headers ops (header_of i)) i"
proof (induction ops arbitrary: i)
  case Nil
  then show ?case by (simp add: apply_headers_def with_header_simps)
next
  case (Cons x ops)
  then show ?case
    by (simp add: apply_headers_def run_intercepted_when_intercepted with_header_simps)
qed

lemma intercept_loop_handleStatus:
  assumes "map_of hs sc = Some (Some h)" and "hGet H HeaderFlagDoNotIntercept = []"
  shows "intercept_loop (interceptMap_of hs) sc H"
proof -
  from assms(1) have "(sc, Some h) \<in> set hs"
    by (rule map_of_SomeD)
  then have "(sc, \<lambda>g. Some h \<noteq> None \<and> hGet g HeaderFlagDoNotIntercept = [])
               \<in> set (interceptMap_of hs)"
    by (force simp: interceptMap_of_def)
  with assms(2) show ?thesis
    by (auto simp: intercept_loop_iff)
qed

lemma getMethodsForPattern_Methods:
  "getMethodsForPattern rt pattern =
     (case map_of (Paths rt) pattern of None \<Rightarrow> [] | Some item \<Rightarrow> Methods item)"
  by (simp add: getMethodsForPattern_def Methods_def addIfMissing_def Let_def
        split: option.splits)

lemma once_options_keeps:
  assumes "once_options host r rt = Inr rt1"
  shows "Paths rt1 = Paths rt \<and> handleStatus rt1 = handleStatus rt"
proof (cases "openapiDocs r \<and> \<not> once_done rt")
  case True
  with assms obtain rt0 where
    loop: "options_loop host (map fst (Paths rt)) rt = Inr rt0" and
    rt1: "rt1 = rt0\<lparr>once_done := True\<rparr>"
    by (auto simp: once_options_def pbind_def split: sum.splits)
  from options_loop_keeps [OF loop] rt1 show ?thesis by simp
next
  case False
  with assms show ?thesis by (auto simp: once_options_def)
qed

text \<open>
  The interceptor after a delegated dispatch that sets headers, then writes status 405
  while a 405 handler is registered and the flag header is absent: the status and
  whatever follows it are swallowed, only the header changes reach the writer.
\<close>

lemma interceptor_after_405:
  assumes "map_of hs 405 = Some (Some h)" and "list_all is_header_op pre"
    and "hGet (apply_headers pre (rw_header w)) HeaderFlagDoNotIntercept = []"
  shows "fold run_intercepted (pre @ CallWriteHeader 405 # post)
           (new_interceptor w (interceptMap_of hs)) =
         \<lparr>rsiw_ResponseWriter =
            \<lparr>ehw_ResponseWriter = w\<lparr>rw_header := apply_headers (pre @ post) (rw_header w)\<rparr>,
             excludedHeaders = [HeaderFlagDoNotIntercept]\<rparr>,
          interceptMap = interceptMap_of hs, statusCode = 405, intercepted = True\<rparr>"
proof -
  let ?i0 = "new_interceptor w (interceptMap_of hs)"
  let ?i1 = "with_header (apply_headers pre (rw_header w)) ?i0"
  have h0: "header_of ?i0 = rw_header w"
    by (simp add: header_of_def new_interceptor_def)
  have pre: "fold run_intercepted pre ?i0 = ?i1"
    using assms(2) by (simp add: fold_run_intercepted_header_ops h0)
  have loop: "intercept_loop (interceptMap ?i1) 405 (ehw_Header (rsiw_ResponseWriter ?i1))"
    using intercept_loop_handleStatus [OF assms(1) assms(3)]
    by (simp add: with_header_def new_interceptor_def ehw_Header_def)
  have "\<not> intercepted ?i1"
    by (simp add: with_header_def new_interceptor_def)
  with loop have wh: "rsiw_WriteHeader 405 ?i1 = ?i1\<lparr>statusCode := 405, intercepted := True\<rparr>"
    by (simp add: rsiw_WriteHeader_def)
  have "fold run_intercepted (pre @ CallWriteHeader 405 # post) ?i0 =
          fold run_intercepted post (?i1\<lparr>statusCode := 405, intercepted := True\<rparr>)"
    by (simp add: pre wh)
  also have "\<dots> = with_header
      (apply_headers post (header_of (?i1\<lparr>statusCode := 405, intercepted := True\<rparr>)))
      (?i1\<lparr>statusCode := 405, intercepted := True\<rparr>)"
    by (rule fold_run_intercepted_when_intercepted) simp
  finally show ?thesis
    by (simp add: with_header_def header_of_def new_interceptor_def apply_headers_def)
qed

text \<open>
  C1, as the code has it. Let a 405 handler \<open>h\<close> be registered, let the \<^verbatim>\<open>once.Do\<close>
  block run to its end (or not run), let the request not be redirected, and let the
  delegated dispatch answer with header changes, then status 405 (the flag header
  absent), then anything. Then \<^verbatim>\<open>ServeHTTP\<close> runs \<open>h\<close> on the header-erasing writer
  around the original writer, which has seen neither the status nor the body of the
  delegate. Before that it sets \<^verbatim>\<open>Allow\<close> when the document has a descriptor under the
  path of the request with at least one operation: to the methods that have an operation
  there, in the order GET, POST, PUT, DELETE, PATCH. Otherwise the header map is as the
  delegate left it.
\<close>

theorem method_not_allowed_override:
  assumes "map_of (handleStatus rt) 405 = Some (Some h)"
    and "once_options host r rt = Inr rt1"
    and "\<not> redirectTrailingSlash r \<or>
         (req_path req \<noteq> [] \<and> (req_path req = ''/'' \<or> last (req_path req) \<noteq> CHR ''/''))"
    and "hm_serve host (mux rt1) req = pre @ CallWriteHeader 405 # post"
    and "list_all is_header_op pre"
    and "hGet (apply_headers pre (rw_header w)) HeaderFlagDoNotIntercept = []"
  shows "ServeHTTP host r rt w req =
           Inr (rt1,
                ehw_ResponseWriter (fold run_direct (h req)
                  \<lparr>ehw_ResponseWriter = w\<lparr>rw_header :=
                      (case map_of (Paths rt) (req_path req) of
                         None \<Rightarrow> apply_headers (pre @ post) (rw_header w)
                       | Some item \<Rightarrow>
                           if Methods item = [] then apply_headers (pre @ post) (rw_header w)
                           else hSet ''Allow'' (join (Methods item) '', '')
                                  (apply_headers (pre @ post) (rw_header w)))\<rparr>,
                   excludedHeaders = [HeaderFlagDoNotIntercept]\<rparr>))"
proof -
  have keep: "Paths rt1 = Paths rt" "handleStatus rt1 = handleStatus rt"
    using once_options_keeps [OF assms(2)] by simp_all
  have i: "fold run_intercepted (hm_serve host (mux rt1) req)
             (new_interceptor w (interceptMap_of (handleStatus rt))) =
           \<lparr>rsiw_ResponseWriter =
              \<lparr>ehw_ResponseWriter = w\<lparr>rw_header := apply_headers (pre @ post) (rw_header w)\<rparr>,
               excludedHeaders = [HeaderFlagDoNotIntercept]\<rparr>,
            interceptMap = interceptMap_of (handleStatus rt),
            statusCode = 405, intercepted = True\<rparr>"
    unfolding assms(4) using assms(1,5,6) by (rule interceptor_after_405)
  have "ServeHTTP host r rt w req = dispatch host rt1 w req"
    using assms(2,3) by (rule ServeHTTP_dispatch)
  also have "\<dots> = Inr (rt1,
                ehw_ResponseWriter (fold run_direct (h req)
                  \<lparr>ehw_ResponseWriter = w\<lparr>rw_header :=
                      (case map_of (Paths rt) (req_path req) of
                         None \<Rightarrow> apply_headers (pre @ post) (rw_header w)
                       | Some item \<Rightarrow>
                           if Methods item = [] then apply_headers (pre @ post) (rw_header w)
                           else hSet ''Allow'' (join (Methods item) '', '')
                                  (apply_headers (pre @ post) (rw_header w)))\<rparr>,
                   excludedHeaders = [HeaderFlagDoNotIntercept]\<rparr>))"
    using assms(1)
    by (simp add: dispatch_def keep i override_def getMethodsForPattern_Methods pbind_def
          Let_def ehw_setHeader_def ehw_Header_def split: option.splits)
  finally show ?thesis .
qed

text \<open>
  GET and POST documented on \<^verbatim>\<open>/users\<close>, a 405 handler, and a DELETE request. The first
  request installs the discovery handler, so the stand-in multiplexer answers with
  \<^verbatim>\<open>Allow: GET, HEAD, OPTIONS, POST\<close>; the router replaces that by the documented methods.
\<close>

definition custom405 :: handler where
  "custom405 req = [CallWriteHeader 405, CallWrite ''custom 405'']"

definition delete_request :: "string \<Rightarrow> request" where
  "delete_request path = \<lparr>req_method = ''DELETE'', req_path = path\<rparr>"

definition users405_state :: root where
  "users405_state = HandleStatus 405 (Some custom405) users_state"

definition users405_served :: root where
  "users405_served =
     (case once_options literal_mux docs_router users405_state of
        Inr rt \<Rightarrow> rt | Inl e \<Rightarrow> users405_state)"

lemma users405_facts:
  "map_of (handleStatus users405_state) 405 = Some (Some custom405)"
  "once_options literal_mux docs_router users405_state = Inr users405_served"
  "\<not> redirectTrailingSlash docs_router \<or>
   (req_path (delete_request ''/users'') \<noteq> [] \<and>
    (req_path (delete_request ''/users'') = ''/'' \<or>
     last (req_path (delete_request ''/users'')) \<noteq> CHR ''/''))"
  "list_all is_header_op [SetHeader ''Allow'' ''GET, HEAD, OPTIONS, POST'']"
  "hGet (apply_headers [SetHeader ''Allow'' ''GET, HEAD, OPTIONS, POST''] (rw_header recorder))
     HeaderFlagDoNotIntercept = []"
  by (simp_all add: users405_state_def users405_served_def HandleStatus_def users_state_def
        eval_defs serve_defs delete_request_def apply_headers_def)

lemma users405_reply:
  "hm_serve literal_mux (mux users405_served) (delete_request ''/users'') =
     [SetHeader ''Allow'' ''GET, HEAD, OPTIONS, POST''] @
     CallWriteHeader 405 # [CallWrite ''Method Not Allowed'']"
  by (simp add: users405_state_def users405_served_def HandleStatus_def users_state_def
        eval_defs serve_defs delete_request_def)

lemma users405_paths: "map_of (Paths users405_state) ''/users'' = Some users_item"
  by (simp add: users405_state_def HandleStatus_def users_state_def users_item_def eval_defs)

theorem method_not_allowed_override_witness:
  "hm_serve literal_mux (mux users405_served) (delete_request ''/users'') =
     [SetHeader ''Allow'' ''GET, HEAD, OPTIONS, POST'', CallWriteHeader 405,
      CallWrite ''Method Not Allowed''] \<and>
   (case ServeHTTP literal_mux docs_router users405_state recorder (delete_request ''/users'') of
      Inl e \<Rightarrow> ([], [])
    | Inr (rt', w') \<Rightarrow> (hGet (rw_header w') ''Allow'', rw_calls w')) =
     (''GET, POST'', [WroteHeader 405, Wrote ''custom 405''])"
proof -
  note served =
    method_not_allowed_override
      [OF users405_facts(1) users405_facts(2) users405_facts(3) users405_reply
          users405_facts(4) users405_facts(5)]
  have "(case ServeHTTP literal_mux docs_router users405_state recorder
                (delete_request ''/users'') of
           Inl e \<Rightarrow> ([], [])
         | Inr (rt', w') \<Rightarrow> (hGet (rw_header w') ''Allow'', rw_calls w')) =
        (''GET, POST'', [WroteHeader 405, Wrote ''custom 405''])"
    unfolding served
    by (simp add: users405_paths users_item_Methods delete_request_def custom405_def
          apply_headers_def recorder_def ehw_WriteHeader_def ehw_Write_def base_WriteHeader_def
          base_Write_def hGet_def hSet_def hDel_def HeaderFlagDoNotIntercept_def)
  with users405_reply show ?thesis by simp
qed

text \<open>
  C1 as stated fails where a method is registered without declarations: GET on
  \<^verbatim>\<open>/users\<close> with declarations and PUT on \<^verbatim>\<open>/users\<close> without (the declarations are
  optional). A DELETE request is answered by the 405 handler with \<^verbatim>\<open>Allow: GET\<close>,
  although PUT is registered for the path.
\<close>

definition put_state :: root where
  "put_state =
     HandleStatus 405 (Some custom405)
       (case pbind (handle docs_router ''GET'' ''/users'' ok_handler [plain_docs] (snd New))
               (handle docs_router ''PUT'' ''/users'' ok_handler []) of
          Inr rt \<Rightarrow> rt | Inl e \<Rightarrow> snd New)"

theorem allow_misses_registered_method_counterexample:
  "(case ServeHTTP literal_mux docs_router put_state recorder (delete_request ''/users'') of
      Inl e \<Rightarrow> ([], [])
    | Inr (rt', w') \<Rightarrow> (hGet (rw_header w') ''Allow'', rw_calls w')) =
     (''GET'', [WroteHeader 405, Wrote ''custom 405'']) \<and>
   registered_methods (mux put_state) ''/users'' = [''GET'', ''PUT'']"
  by (simp add: put_state_def HandleStatus_def eval_defs serve_defs delete_request_def
        custom405_def)

text \<open>
  With documentation off (the default) the document is empty and the router sets no
  \<^verbatim>\<open>Allow\<close> header at all: only what the delegate set is left.
\<close>

lemma no_docs_no_allow:
  "(case pbind (handle (fst New) ''GET'' ''/users'' ok_handler [plain_docs] (snd New))
           (\<lambda>rt. Inr (getMethodsForPattern rt ''/users'')) of
      Inl e \<Rightarrow> [''?'']
    | Inr ms \<Rightarrow> ms) = []"
  by (simp add: eval_defs getMethodsForPattern_def)

end
